theory Spec2Isabelle
  imports Main
begin

section \<open>Python values\<close>

text \<open>
  The values that flow through the cache layer: the arguments of a memoized function,
  the identifiers derived from them and the function's output.  \<open>PObj s\<close> is an object
  with default truthiness and equality whose \<open>__str__\<close> returns \<open>s\<close> (a video id
  object, for instance).  Text is Python text; \<open>str()\<close> is total on these values.
\<close>

datatype pyval = PNone | PBool bool | PInt int | PStr string | PObj string

text \<open>Exceptions as values; \<open>Raised n\<close> is any exception class other than the three named.\<close>

datatype error = CacheMiss | IndexError | TypeError | Raised string

fun py_truthy :: "pyval \<Rightarrow> bool" where
  "py_truthy PNone = False"
| "py_truthy (PBool b) = b"
| "py_truthy (PInt i) = (i \<noteq> 0)"
| "py_truthy (PStr s) = (s \<noteq> [])"
| "py_truthy (PObj s) = True"

fun str_nat :: "nat \<Rightarrow> string" where
  "str_nat n = (if n < 10 then [''0123456789'' ! n]
                else str_nat (n div 10) @ [''0123456789'' ! (n mod 10)])"

declare str_nat.simps [simp del]

fun py_str :: "pyval \<Rightarrow> string" where
  "py_str PNone = ''None''"
| "py_str (PBool b) = (if b then ''True'' else ''False'')"
| "py_str (PInt i) = (if i < 0 then CHR ''-'' # str_nat (nat (- i)) else str_nat (nat i))"
| "py_str (PStr s) = s"
| "py_str (PObj s) = s"

text \<open>\<open>a or b\<close>\<close>

definition py_or :: "pyval \<Rightarrow> pyval \<Rightarrow> pyval" where
  "py_or a b = (if py_truthy a then a else b)"

text \<open>\<open>a + b\<close>: numbers add (a bool is an int), text concatenates, anything else is a
  TypeError.\<close>

fun py_num :: "pyval \<Rightarrow> int option" where
  "py_num (PInt i) = Some i"
| "py_num (PBool b) = Some (if b then 1 else 0)"
| "py_num _ = None"

definition py_add :: "pyval \<Rightarrow> pyval \<Rightarrow> error + pyval" where
  "py_add a b =
     (case (a, b) of
        (PStr x, PStr y) \<Rightarrow> Inr (PStr (x @ y))
      | _ \<Rightarrow> (case (py_num a, py_num b) of
                 (Some i, Some j) \<Rightarrow> Inr (PInt (i + j))
               | _ \<Rightarrow> Inl TypeError))"

text \<open>\<open>xs[i]\<close> on a tuple: a negative index counts from the end, out of range raises.\<close>

definition py_index :: "'a list \<Rightarrow> int \<Rightarrow> error + 'a" where
  "py_index xs i =
     (if 0 \<le> i \<and> i < int (length xs) then Inr (xs ! nat i)
      else if i < 0 \<and> - int (length xs) \<le> i then Inr (xs ! nat (int (length xs) + i))
      else Inl IndexError)"

text \<open>\<open>kwargs.get(name)\<close>\<close>

definition kwargs_get :: "(string \<rightharpoonup> pyval) \<Rightarrow> string \<Rightarrow> pyval" where
  "kwargs_get kwargs k = (case kwargs k of None \<Rightarrow> PNone | Some v \<Rightarrow> v)"

definition bind_err :: "error + 'a \<Rightarrow> ('a \<Rightarrow> error + 'b) \<Rightarrow> error + 'b" where
  "bind_err r f = (case r of Inl e \<Rightarrow> Inl e | Inr x \<Rightarrow> f x)"

section \<open>Base64 (the standard alphabet, as the Python 2 path of the codec uses it)\<close>

definition b64_char :: "nat \<Rightarrow> char" where
  "b64_char n =
     (if n < 26 then char_of (65 + n)
      else if n < 52 then char_of (71 + n)
      else if n < 62 then char_of (n - 4)
      else if n = 62 then CHR ''+'' else CHR ''/'')"

definition b64_index :: "char \<Rightarrow> nat option" where
  "b64_index c =
     (let k = (of_char c :: nat) in
      if 65 \<le> k \<and> k \<le> 90 then Some (k - 65)
      else if 97 \<le> k \<and> k \<le> 122 then Some (k - 71)
      else if 48 \<le> k \<and> k \<le> 57 then Some (k + 4)
      else if k = 43 then Some 62
      else if k = 47 then Some 63
      else None)"

fun standard_b64encode :: "string \<Rightarrow> string" where
  "standard_b64encode (a # b # c # rest) =
     (let x = (of_char a :: nat); y = (of_char b :: nat); z = (of_char c :: nat) in
        b64_char (x div 4) # b64_char ((x mod 4) * 16 + y div 16) #
        b64_char ((y mod 16) * 4 + z div 64) # b64_char (z mod 64) #
        standard_b64encode rest)"
| "standard_b64encode [a, b] =
     (let x = (of_char a :: nat); y = (of_char b :: nat) in
        [b64_char (x div 4), b64_char ((x mod 4) * 16 + y div 16),
         b64_char ((y mod 16) * 4), CHR ''=''])"
| "standard_b64encode [a] =
     (let x = (of_char a :: nat) in
        [b64_char (x div 4), b64_char ((x mod 4) * 16), CHR ''='', CHR ''=''])"
| "standard_b64encode [] = []"

text \<open>
  The lenient decoder of Python 2: characters outside the alphabet are skipped; a pad
  character ends the input when it closes a quad and is skipped otherwise; bits left
  over at the end are "Incorrect padding", which \<open>base64.b64decode\<close> raises as TypeError.
  \<open>find_valid s num\<close> is the character of \<open>s\<close> that has \<open>num\<close> alphabet or pad
  characters before it.
\<close>

definition b64_valid :: "char \<Rightarrow> bool" where
  "b64_valid c = (c = CHR ''='' \<or> b64_index c \<noteq> None)"

fun find_valid :: "string \<Rightarrow> nat \<Rightarrow> char option" where
  "find_valid [] num = None"
| "find_valid (c # s) num =
     (if b64_valid c then (case num of 0 \<Rightarrow> Some c | Suc k \<Rightarrow> find_valid s k)
      else find_valid s num)"

fun a2b_base64 :: "string \<Rightarrow> nat \<Rightarrow> nat \<Rightarrow> nat \<Rightarrow> string \<Rightarrow> error + string" where
  "a2b_base64 [] quad_pos leftchar leftbits out =
     (if leftbits \<noteq> 0 then Inl TypeError else Inr out)"
| "a2b_base64 (c # s) quad_pos leftchar leftbits out =
     (if c = CHR ''='' then
        (if quad_pos < 2 \<or> (quad_pos = 2 \<and> find_valid (c # s) 1 \<noteq> Some CHR ''='')
         then a2b_base64 s quad_pos leftchar leftbits out
         else Inr out)
      else (case b64_index c of
          None \<Rightarrow> a2b_base64 s quad_pos leftchar leftbits out
        | Some v \<Rightarrow>
           (let quad_pos' = (quad_pos + 1) mod 4;
                leftchar' = leftchar * 64 + v;
                leftbits' = leftbits + 6
            in if leftbits' \<ge> 8
               then a2b_base64 s quad_pos' (leftchar' mod 2 ^ (leftbits' - 8)) (leftbits' - 8)
                      (out @ [char_of (leftchar' div 2 ^ (leftbits' - 8))])
               else a2b_base64 s quad_pos' leftchar' leftbits' out)))"

definition standard_b64decode :: "string \<Rightarrow> error + string" where
  "standard_b64decode s = a2b_base64 s 0 0 0 []"

declare a2b_base64.simps(2) [simp del]

section \<open>The process globals and the collaborators\<close>

text \<open>
  A bucket is the dict \<open>{'name': .., 'is_persistent': .., 'default_ttl': ..}\<close> of
  cache_utils.py.
\<close>

record bucket =
  name :: string
  is_persistent :: bool
  default_ttl :: int

text \<open>
  What a parameter of a cache call, or the answer to one, can be: a plain value, a
  serialized payload (a byte string), a bucket, or the bucket list of \<open>clear\<close>.
\<close>

datatype param = Val pyval | Payload string | Bucket bucket | Buckets "bucket list"

text \<open>
  The globals \<open>g\<close> read by the two modules, and the collaborators they call that live
  outside them, taken as parameters over a state \<open>'s\<close> of the cache-owning process:
  \<^item> \<open>CACHE_MANAGEMENT callname params\<close> is \<open>getattr(g.CACHE_MANAGEMENT, callname)(**params)\<close>;
  \<^item> \<open>make_http_call_cache callname params data\<close> is the IPC cache channel;
  \<^item> \<open>active_profile_guid\<close> is \<open>g.LOCAL_DB.get_active_profile_guid()\<close>;
  \<^item> \<open>pickle_dumps\<close>, \<open>pickle_loads\<close> are pickle at its highest protocol.
\<close>

record 's globals =
  IS_SERVICE :: bool
  PY_IS_VER2 :: bool
  CACHE_TTL :: int
  CACHE_METADATA_TTL :: int
  CACHE_MANAGEMENT :: "string \<Rightarrow> (string \<rightharpoonup> param) \<Rightarrow> 's \<Rightarrow> (error + param) \<times> 's"
  make_http_call_cache ::
    "string \<Rightarrow> (string \<rightharpoonup> param) \<Rightarrow> param \<Rightarrow> 's \<Rightarrow> (error + param) \<times> 's"
  active_profile_guid :: string
  pickle_dumps :: "pyval \<Rightarrow> error + string"
  pickle_loads :: "string \<Rightarrow> error + pyval"

section \<open>cache.py: the facade\<close>

definition make_call ::
  "'s globals \<Rightarrow> string \<Rightarrow> (string \<rightharpoonup> param) \<Rightarrow> param \<Rightarrow> 's \<Rightarrow> (error + param) \<times> 's"
where
  "make_call g callname params data s =
     (if IS_SERVICE g then
        CACHE_MANAGEMENT g callname
          (case params ''data'' of None \<Rightarrow> params | Some x \<Rightarrow> params(''data'' \<mapsto> data)) s
      else make_http_call_cache g callname params data s)"

definition serialize_data :: "'s globals \<Rightarrow> pyval \<Rightarrow> error + string" where
  "serialize_data g v =
     (if PY_IS_VER2 g
      then bind_err (pickle_dumps g v) (\<lambda>p. Inr (standard_b64encode p))
      else pickle_dumps g v)"

text \<open>Both \<open>standard_b64decode\<close> and \<open>pickle.loads\<close> raise TypeError on what is no
  byte string.\<close>

definition as_bytes :: "param \<Rightarrow> error + string" where
  "as_bytes v = (case v of Payload b \<Rightarrow> Inr b | _ \<Rightarrow> Inl TypeError)"

definition deserialize_data :: "'s globals \<Rightarrow> param \<Rightarrow> error + pyval" where
  "deserialize_data g v =
     (if PY_IS_VER2 g
      then bind_err (bind_err (as_bytes v) standard_b64decode) (pickle_loads g)
      else bind_err (as_bytes v) (pickle_loads g))"

definition Cache_get :: "'s globals \<Rightarrow> bucket \<Rightarrow> pyval \<Rightarrow> 's \<Rightarrow> (error + pyval) \<times> 's" where
  "Cache_get g b identifier s =
     (case make_call g ''get''
             [''bucket'' \<mapsto> Bucket b, ''identifier'' \<mapsto> Val (PStr (py_str identifier))]
             (Val PNone) s of
        (Inl e, s') \<Rightarrow> (Inl e, s')
      | (Inr data, s') \<Rightarrow> (deserialize_data g data, s'))"

definition Cache_add ::
  "'s globals \<Rightarrow> bucket \<Rightarrow> pyval \<Rightarrow> pyval \<Rightarrow> pyval \<Rightarrow> pyval \<Rightarrow> 's \<Rightarrow> (error + pyval) \<times> 's"
where
  "Cache_add g b identifier data ttl expires s =
     (case serialize_data g data of
        Inl e \<Rightarrow> (Inl e, s)
      | Inr payload \<Rightarrow>
          (case make_call g ''add''
                  [''bucket'' \<mapsto> Bucket b, ''identifier'' \<mapsto> Val (PStr (py_str identifier)),
                   ''data'' \<mapsto> Val PNone, ''ttl'' \<mapsto> Val ttl, ''expires'' \<mapsto> Val expires]
                  (Payload payload) s of
             (Inl e, s') \<Rightarrow> (Inl e, s')
           | (Inr r, s') \<Rightarrow> (Inr PNone, s')))"

definition Cache_delete :: "'s globals \<Rightarrow> bucket \<Rightarrow> pyval \<Rightarrow> 's \<Rightarrow> (error + pyval) \<times> 's" where
  "Cache_delete g b identifier s =
     (case make_call g ''delete''
             [''bucket'' \<mapsto> Bucket b, ''identifier'' \<mapsto> Val (PStr (py_str identifier))]
             (Val PNone) s of
        (Inl e, s') \<Rightarrow> (Inl e, s')
      | (Inr r, s') \<Rightarrow> (Inr PNone, s'))"

definition Cache_clear :: "'s globals \<Rightarrow> param \<Rightarrow> bool \<Rightarrow> 's \<Rightarrow> (error + pyval) \<times> 's" where
  "Cache_clear g buckets clear_database s =
     (case make_call g ''clear''
             [''buckets'' \<mapsto> buckets, ''clear_database'' \<mapsto> Val (PBool clear_database)]
             (Val PNone) s of
        (Inl e, s') \<Rightarrow> (Inl e, s')
      | (Inr r, s') \<Rightarrow> (Inr PNone, s'))"

section \<open>cache\_utils.py: buckets and the memoization decorator\<close>

definition CACHE_COMMON :: "'s globals \<Rightarrow> bucket" where
  "CACHE_COMMON g = \<lparr>name = ''cache_common'', is_persistent = False, default_ttl = CACHE_TTL g\<rparr>"

definition CACHE_GENRES :: "'s globals \<Rightarrow> bucket" where
  "CACHE_GENRES g = \<lparr>name = ''cache_genres'', is_persistent = False, default_ttl = CACHE_TTL g\<rparr>"

definition CACHE_SUPPLEMENTAL :: "'s globals \<Rightarrow> bucket" where
  "CACHE_SUPPLEMENTAL g =
     \<lparr>name = ''cache_supplemental'', is_persistent = False, default_ttl = CACHE_TTL g\<rparr>"

definition CACHE_METADATA :: "'s globals \<Rightarrow> bucket" where
  "CACHE_METADATA g =
     \<lparr>name = ''cache_metadata'', is_persistent = True, default_ttl = CACHE_METADATA_TTL g\<rparr>"

definition CACHE_INFOLABELS :: "'s globals \<Rightarrow> bucket" where
  "CACHE_INFOLABELS g =
     \<lparr>name = ''cache_infolabels'', is_persistent = True, default_ttl = CACHE_METADATA_TTL g\<rparr>"

definition CACHE_ARTINFO :: "'s globals \<Rightarrow> bucket" where
  "CACHE_ARTINFO g =
     \<lparr>name = ''cache_artinfo'', is_persistent = True, default_ttl = CACHE_METADATA_TTL g\<rparr>"

definition CACHE_MANIFESTS :: "'s globals \<Rightarrow> bucket" where
  "CACHE_MANIFESTS g =
     \<lparr>name = ''cache_manifests'', is_persistent = False, default_ttl = CACHE_TTL g\<rparr>"

definition CACHE_BOOKMARKS :: "'s globals \<Rightarrow> bucket" where
  "CACHE_BOOKMARKS g =
     \<lparr>name = ''cache_bookmarks'', is_persistent = False, default_ttl = CACHE_TTL g\<rparr>"

definition BUCKET_NAMES :: "string list" where
  "BUCKET_NAMES = [''cache_common'', ''cache_genres'', ''cache_supplemental'', ''cache_metadata'',
                   ''cache_infolabels'', ''cache_artinfo'', ''cache_manifests'', ''cache_bookmarks'']"

definition BUCKETS :: "'s globals \<Rightarrow> bucket list" where
  "BUCKETS g = [CACHE_COMMON g, CACHE_GENRES g, CACHE_SUPPLEMENTAL g, CACHE_METADATA g,
                CACHE_INFOLABELS g, CACHE_ARTINFO g, CACHE_MANIFESTS g, CACHE_BOOKMARKS g]"

definition CACHE_MYLIST_TTL_MAX :: int where
  "CACHE_MYLIST_TTL_MAX = 7200"

definition generate_identifier :: "'s globals \<Rightarrow> string \<Rightarrow> string" where
  "generate_identifier g partial_identifier = active_profile_guid g @ ''_'' @ partial_identifier"

text \<open>
  \<open>_get_identifier\<close>.  The secondary kwarg name is \<open>None\<close> or text; the function returns
  the pair \<open>(arg_value, identifier)\<close> or raises from the tuple index or the \<open>+\<close>.
\<close>

definition get_identifier ::
  "'s globals \<Rightarrow> pyval \<Rightarrow> string \<Rightarrow> string option \<Rightarrow> int \<Rightarrow> pyval list \<Rightarrow> (string \<rightharpoonup> pyval)
     \<Rightarrow> error + (pyval \<times> string)"
where
  "get_identifier g fixed_identifier identify_from_kwarg_name identify_append_from_kwarg_name
       identify_fallback_arg_index args kwargs =
     (if py_truthy fixed_identifier
      then Inr (PNone, generate_identifier g (py_str fixed_identifier))
      else
        bind_err
          (let identifier = kwargs_get kwargs identify_from_kwarg_name in
           if \<not> py_truthy identifier \<and> args \<noteq> []
           then bind_err (py_index args identify_fallback_arg_index) (\<lambda>a. Inr (a, a))
           else Inr (PNone, identifier))
          (\<lambda>(arg_value, identifier).
             bind_err
               (case identify_append_from_kwarg_name of
                  None \<Rightarrow> Inr identifier
                | Some n \<Rightarrow>
                    if py_truthy identifier \<and> n \<noteq> [] \<and> py_truthy (kwargs_get kwargs n)
                    then bind_err (py_add (PStr ''_'') (kwargs_get kwargs n)) (py_add identifier)
                    else Inr identifier)
               (\<lambda>identifier. Inr (arg_value, generate_identifier g (py_str identifier)))))"

text \<open>
  The state the decorator runs in: the state of the cache-owning process and the log of
  the calls made to the wrapped function, each with its positional and keyword arguments.
\<close>

record 's world =
  cache :: 's
  calls :: "(pyval list \<times> (string \<rightharpoonup> pyval)) list"

type_synonym 's func = "pyval list \<Rightarrow> (string \<rightharpoonup> pyval) \<Rightarrow> 's \<Rightarrow> (error + pyval) \<times> 's"

text \<open>\<open>func(*args, **kwargs)\<close>\<close>

definition invoke ::
  "'s func \<Rightarrow> pyval list \<Rightarrow> (string \<rightharpoonup> pyval) \<Rightarrow> 's world \<Rightarrow> (error + pyval) \<times> 's world"
where
  "invoke func args kwargs w =
     (case func args kwargs (cache w) of
        (r, s') \<Rightarrow> (r, \<lparr>cache = s', calls = calls w @ [(args, kwargs)]\<rparr>))"

text \<open>The \<open>except CacheMiss\<close> branch of the wrapper.\<close>

definition on_cache_miss ::
  "'s globals \<Rightarrow> bucket \<Rightarrow> string \<Rightarrow> pyval \<Rightarrow> pyval \<Rightarrow> 's func \<Rightarrow> pyval list
     \<Rightarrow> (string \<rightharpoonup> pyval) \<Rightarrow> 's world \<Rightarrow> (error + pyval) \<times> 's world"
where
  "on_cache_miss g b identifier ttl ttl_override func args kwargs w =
     (case invoke func args kwargs w of
        (Inl e, w1) \<Rightarrow> (Inl e, w1)
      | (Inr output, w1) \<Rightarrow>
          (case Cache_add g b (PStr identifier) output (py_or ttl ttl_override) PNone (cache w1) of
             (Inl e, s2) \<Rightarrow> (Inl e, w1\<lparr>cache := s2\<rparr>)
           | (Inr r, s2) \<Rightarrow> (Inr output, w1\<lparr>cache := s2\<rparr>)))"

text \<open>
  The wrapper that \<open>cache_output(bucket, ...)\<close> puts around \<open>func\<close>.  \<open>_get_identifier\<close>
  raises no CacheMiss, so what it raises leaves the \<open>try\<close> uncaught.
\<close>

definition cache_output ::
  "'s globals \<Rightarrow> bucket \<Rightarrow> pyval \<Rightarrow> string \<Rightarrow> string option \<Rightarrow> int \<Rightarrow> pyval \<Rightarrow> 's func
     \<Rightarrow> pyval list \<Rightarrow> (string \<rightharpoonup> pyval) \<Rightarrow> 's world \<Rightarrow> (error + pyval) \<times> 's world"
where
  "cache_output g b fixed_identifier identify_from_kwarg_name identify_append_from_kwarg_name
       identify_fallback_arg_index ttl func args kwargs w =
     (case get_identifier g fixed_identifier identify_from_kwarg_name
             identify_append_from_kwarg_name identify_fallback_arg_index args kwargs of
        Inl e \<Rightarrow> (Inl e, w)
      | Inr (arg_value, identifier) \<Rightarrow>
          (let ttl_override =
                 (if ttl = PNone \<and> arg_value = PStr ''mylist''
                  then PInt (min (CACHE_TTL g) CACHE_MYLIST_TTL_MAX) else PNone)
           in case (if identifier = []
                    then invoke func args kwargs w
                    else (case Cache_get g b (PStr identifier) (cache w) of
                            (r, s') \<Rightarrow> (r, w\<lparr>cache := s'\<rparr>))) of
                (Inl e, w') \<Rightarrow>
                   if e = CacheMiss
                   then on_cache_miss g b identifier ttl ttl_override func args kwargs w'
                   else (Inl e, w')
              | (Inr v, w') \<Rightarrow> (Inr v, w')))"

section \<open>A cache management for the examples\<close>

text \<open>
  Modelled from the spec: the Cache Store behind \<open>g.CACHE_MANAGEMENT\<close> and the serving end
  of the IPC cache channel are not among the sources.  The one below stands in for them
  where an example needs a concrete process: it keeps the journal of the calls it has
  received and answers \<open>get\<close> from the journal, with the payload of the last \<open>add\<close> of
  the key, or CacheMiss when there is none or a \<open>delete\<close> of the key or a \<open>clear\<close> of
  its bucket came after it.  Entries do not expire in it.
\<close>

type_synonym journal = "(string \<times> (string \<rightharpoonup> param)) list"

definition same_key :: "string \<Rightarrow> string \<Rightarrow> (string \<rightharpoonup> param) \<Rightarrow> bool" where
  "same_key bn i params =
     (case (params ''bucket'', params ''identifier'') of
        (Some (Bucket b), Some (Val (PStr j))) \<Rightarrow> name b = bn \<and> j = i
      | _ \<Rightarrow> False)"

definition clears :: "string \<Rightarrow> (string \<rightharpoonup> param) \<Rightarrow> bool" where
  "clears bn params =
     (case params ''buckets'' of
        Some (Buckets bs) \<Rightarrow> bn \<in> set (map name bs)
      | _ \<Rightarrow> True)"

text \<open>The journal is searched from its latest call.\<close>

fun journal_lookup :: "string \<Rightarrow> string \<Rightarrow> journal \<Rightarrow> error + param" where
  "journal_lookup bn i [] = Inl CacheMiss"
| "journal_lookup bn i ((callname, params) # older) =
     (if callname = ''clear'' \<and> clears bn params then Inl CacheMiss
      else if callname = ''delete'' \<and> same_key bn i params then Inl CacheMiss
      else if callname = ''add'' \<and> same_key bn i params
        then (case params ''data'' of Some (Payload p) \<Rightarrow> Inr (Payload p) | _ \<Rightarrow> Inl CacheMiss)
      else journal_lookup bn i older)"

definition journal_call ::
  "string \<Rightarrow> (string \<rightharpoonup> param) \<Rightarrow> journal \<Rightarrow> (error + param) \<times> journal"
where
  "journal_call callname params j =
     (if callname = ''get''
      then (case (params ''bucket'', params ''identifier'') of
              (Some (Bucket b), Some (Val (PStr i))) \<Rightarrow> journal_lookup (name b) i (rev j)
            | _ \<Rightarrow> Inl TypeError)
      else Inr (Val PNone),
      j @ [(callname, params)])"

text \<open>The channel hands the call to the owning process, which puts the payload back
  into the parameters.\<close>

definition journal_http ::
  "string \<Rightarrow> (string \<rightharpoonup> param) \<Rightarrow> param \<Rightarrow> journal \<Rightarrow> (error + param) \<times> journal"
where
  "journal_http callname params data j =
     journal_call callname
       (case params ''data'' of None \<Rightarrow> params | Some x \<Rightarrow> params(''data'' \<mapsto> data)) j"

text \<open>A stand-in for pickle on text and \<open>None\<close>: a tag byte, then the text.\<close>

definition tag_dumps :: "pyval \<Rightarrow> error + string" where
  "tag_dumps v =
     (case v of
        PStr s \<Rightarrow> Inr (CHR ''S'' # s)
      | PNone \<Rightarrow> Inr ''N''
      | _ \<Rightarrow> Inl (Raised ''PicklingError''))"

definition tag_loads :: "string \<Rightarrow> error + pyval" where
  "tag_loads b =
     (case b of
        [] \<Rightarrow> Inl (Raised ''EOFError'')
      | c # s \<Rightarrow>
          if c = CHR ''S'' then Inr (PStr s)
          else if c = CHR ''N'' \<and> s = [] then Inr PNone
          else Inl (Raised ''UnpicklingError''))"

text \<open>An example process: service or frontend, Python 2 or 3, with the given profile
  active and a general TTL of ten hours.\<close>

definition example_process :: "bool \<Rightarrow> bool \<Rightarrow> string \<Rightarrow> journal globals" where
  "example_process service py2 guid =
     \<lparr>IS_SERVICE = service, PY_IS_VER2 = py2, CACHE_TTL = 36000, CACHE_METADATA_TTL = 2592000,
      CACHE_MANAGEMENT = journal_call, make_http_call_cache = journal_http,
      active_profile_guid = guid, pickle_dumps = tag_dumps, pickle_loads = tag_loads\<rparr>"

text \<open>A wrapped function for the examples: it answers with the text of its first
  positional argument, or of its \<open>videoid\<close>, after \<open>out:\<close>, and leaves the cache alone.\<close>

definition example_func :: "journal func" where
  "example_func args kwargs s =
     (Inr (PStr (''out:'' @ (case args of [] \<Rightarrow> py_str (kwargs_get kwargs ''videoid'')
                                      | a # rest \<Rightarrow> py_str a))), s)"

text \<open>A service whose cache management answers every \<open>get\<close> with CacheMiss and
  fails every other call.\<close>

definition failing_process :: "string \<Rightarrow> journal globals" where
  "failing_process guid =
     (example_process True False guid)
       \<lparr>CACHE_MANAGEMENT :=
          (\<lambda>callname params s.
             (if callname = ''get'' then Inl CacheMiss else Inl (Raised ''TransportFailure''), s))\<rparr>"

section \<open>Shared facts\<close>

lemma get_identifier_shape:
  "get_identifier g fx kw app idx args kwargs = Inr (av, ident) \<Longrightarrow>
     \<exists>p. ident = active_profile_guid g @ ''_'' @ p"
  by (auto simp: get_identifier_def generate_identifier_def bind_err_def Let_def
           split: if_splits sum.splits option.splits prod.splits)

lemma get_identifier_nonempty:
  "get_identifier g fx kw app idx args kwargs = Inr (av, ident) \<Longrightarrow> ident \<noteq> []"
  using get_identifier_shape by fastforce

lemmas facade_defs = Cache_get_def Cache_add_def Cache_delete_def Cache_clear_def make_call_def
  serialize_data_def deserialize_data_def as_bytes_def bind_err_def

lemmas wrapper_defs = cache_output_def on_cache_miss_def invoke_def get_identifier_def
  generate_identifier_def kwargs_get_def py_index_def py_add_def py_or_def
  CACHE_MYLIST_TTL_MAX_def

lemmas example_defs = example_process_def example_func_def journal_call_def journal_http_def
  same_key_def clears_def tag_dumps_def tag_loads_def CACHE_COMMON_def

lemma get_identifier_arg_value:
  "\<not> py_truthy fx \<Longrightarrow> \<not> py_truthy (kwargs_get kwargs kw) \<Longrightarrow> args \<noteq> [] \<Longrightarrow>
   py_index args idx = Inr a \<Longrightarrow>
   get_identifier g fx kw app idx args kwargs = Inr (av, ident) \<Longrightarrow> av = a"
  by (auto simp: get_identifier_def bind_err_def split: option.splits if_splits sum.splits)

lemma cache_output_miss:
  assumes "get_identifier g fx kw app idx args kwargs = Inr (av, ident)"
    and "Cache_get g b (PStr ident) (cache w) = (Inl CacheMiss, sg)"
  shows "cache_output g b fx kw app idx ttl func args kwargs w =
     on_cache_miss g b ident ttl
       (if ttl = PNone \<and> av = PStr ''mylist''
        then PInt (min (CACHE_TTL g) CACHE_MYLIST_TTL_MAX) else PNone)
       func args kwargs (w\<lparr>cache := sg\<rparr>)"
  using assms get_identifier_nonempty [OF assms(1)]
  by (simp add: cache_output_def Let_def)

section \<open>Identifier derivation\<close>

text \<open>
  C3, as the code has it.  A truthy fixed identifier is used as it is and nothing else
  is read.  Otherwise the value of the kwarg named \<open>identify_from_kwarg_name\<close> is the
  identifier when it is truthy, and the positional argument at
  \<open>identify_fallback_arg_index\<close> when the kwarg is absent or falsy and there are
  positional arguments.  The secondary kwarg is appended, after an underscore, when its
  name is configured and its value in the call is truthy text and the identifier so far
  is truthy text; when its name is not configured, or its value is absent or falsy,
  the identifier is left as derived.
\<close>

theorem get_identifier_precedence:
  "(py_truthy fx \<longrightarrow>
      get_identifier g fx kw app idx args kwargs
        = Inr (PNone, generate_identifier g (py_str fx)))
   \<and> (\<not> py_truthy fx \<and> py_truthy (kwargs_get kwargs kw)
        \<and> (case app of None \<Rightarrow> True | Some n \<Rightarrow> n = [] \<or> \<not> py_truthy (kwargs_get kwargs n)) \<longrightarrow>
      get_identifier g fx kw app idx args kwargs
        = Inr (PNone, generate_identifier g (py_str (kwargs_get kwargs kw))))
   \<and> (\<not> py_truthy fx \<and> \<not> py_truthy (kwargs_get kwargs kw) \<and> args \<noteq> []
        \<and> py_index args idx = Inr a
        \<and> (case app of None \<Rightarrow> True | Some n \<Rightarrow> n = [] \<or> \<not> py_truthy (kwargs_get kwargs n)) \<longrightarrow>
      get_identifier g fx kw app idx args kwargs = Inr (a, generate_identifier g (py_str a)))
   \<and> (\<not> py_truthy fx \<and> kwargs_get kwargs kw = PStr s \<and> s \<noteq> []
        \<and> app = Some n \<and> n \<noteq> [] \<and> kwargs_get kwargs n = PStr t \<and> t \<noteq> [] \<longrightarrow>
      get_identifier g fx kw app idx args kwargs
        = Inr (PNone, generate_identifier g (s @ ''_'' @ t)))
   \<and> (\<not> py_truthy fx \<and> \<not> py_truthy (kwargs_get kwargs kw) \<and> args \<noteq> []
        \<and> py_index args idx = Inr (PStr s) \<and> s \<noteq> []
        \<and> app = Some n \<and> n \<noteq> [] \<and> kwargs_get kwargs n = PStr t \<and> t \<noteq> [] \<longrightarrow>
      get_identifier g fx kw app idx args kwargs
        = Inr (PStr s, generate_identifier g (s @ ''_'' @ t)))"
  by (auto simp: get_identifier_def bind_err_def py_add_def split: option.splits)

theorem get_identifier_precedence_witness:
  "get_identifier (example_process True False ''P1'') (PStr ''profiles'') ''videoid''
       (Some ''season'') 5 [] [''season'' \<mapsto> PStr ''2'']
     = Inr (PNone, ''P1_profiles'')
   \<and> get_identifier (example_process True False ''P1'') PNone ''videoid'' (Some ''season'') 0
       [PStr ''x''] [''videoid'' \<mapsto> PStr ''show1'']
     = Inr (PNone, ''P1_show1'')
   \<and> get_identifier (example_process True False ''P1'') PNone ''videoid'' None 0
       [PStr ''mylist''] Map.empty
     = Inr (PStr ''mylist'', ''P1_mylist'')
   \<and> get_identifier (example_process True False ''P1'') PNone ''videoid'' (Some ''season'') 0
       [] [''videoid'' \<mapsto> PStr ''show1'', ''season'' \<mapsto> PStr ''2'']
     = Inr (PNone, ''P1_show1_2'')
   \<and> get_identifier (example_process True False ''P1'') PNone ''videoid'' (Some ''season'') 1
       [PStr ''x'', PStr ''list7''] [''season'' \<mapsto> PStr ''2'']
     = Inr (PStr ''list7'', ''P1_list7_2'')"
  using
    get_identifier_precedence [where fx = "PStr ''profiles''"
      and g = "example_process True False ''P1''" and kw = "''videoid''"
      and app = "Some ''season''" and idx = 5 and args = "[]"
      and kwargs = "[''season'' \<mapsto> PStr ''2'']"]
    get_identifier_precedence [where fx = PNone
      and g = "example_process True False ''P1''" and kw = "''videoid''"
      and app = "Some ''season''" and idx = 0 and args = "[PStr ''x'']"
      and kwargs = "[''videoid'' \<mapsto> PStr ''show1'']"]
    get_identifier_precedence [where fx = PNone
      and g = "example_process True False ''P1''" and kw = "''videoid''"
      and app = None and idx = 0 and args = "[PStr ''mylist'']"
      and kwargs = Map.empty and a = "PStr ''mylist''"]
    get_identifier_precedence [where fx = PNone
      and g = "example_process True False ''P1''" and kw = "''videoid''"
      and app = "Some ''season''" and idx = 0 and args = "[]"
      and kwargs = "[''videoid'' \<mapsto> PStr ''show1'', ''season'' \<mapsto> PStr ''2'']"
      and s = "''show1''" and n = "''season''" and t = "''2''"]
    get_identifier_precedence [where fx = PNone
      and g = "example_process True False ''P1''" and kw = "''videoid''"
      and app = "Some ''season''" and idx = 1 and args = "[PStr ''x'', PStr ''list7'']"
      and kwargs = "[''season'' \<mapsto> PStr ''2'']"
      and s = "''list7''" and n = "''season''" and t = "''2''"]
  by (simp add: kwargs_get_def py_index_def generate_identifier_def example_process_def)

text \<open>
  As claimed, a secondary kwarg that is present in the call would always be appended.
  The code appends it only when its value is truthy: present with the value \<open>None\<close> or
  the empty text, the identifier stays \<open>show1\<close> and is neither \<open>show1_None\<close> nor
  \<open>show1_\<close>.
\<close>

theorem secondary_kwarg_counterexample:
  "get_identifier (example_process True False ''P1'') PNone ''videoid''
       (Some ''perpetual_range_start'') 0 []
       [''videoid'' \<mapsto> PStr ''show1'', ''perpetual_range_start'' \<mapsto> PNone]
     = Inr (PNone, ''P1_show1'')
   \<and> generate_identifier (example_process True False ''P1'') (''show1'' @ ''_'' @ py_str PNone)
     = ''P1_show1_None''
   \<and> get_identifier (example_process True False ''P1'') PNone ''videoid''
       (Some ''perpetual_range_start'') 0 []
       [''videoid'' \<mapsto> PStr ''show1'', ''perpetual_range_start'' \<mapsto> PStr '''']
     = Inr (PNone, ''P1_show1'')
   \<and> generate_identifier (example_process True False ''P1'') (''show1'' @ ''_'' @ py_str (PStr ''''))
     = ''P1_show1_''"
  by (simp add: get_identifier_def bind_err_def kwargs_get_def generate_identifier_def
        example_process_def)

text \<open>
  C10, as the code has it.  In the positional fallback (no fixed identifier, the kwarg
  absent or falsy, at least one positional argument) the tuple is indexed with no check
  on the index.  A Python index may be negative, so the access is in bounds exactly when
  \<open>-len(args) \<le> identify_fallback_arg_index < len(args)\<close>: then it yields the
  argument at that place and the derivation succeeds there; otherwise the IndexError
  leaves \<open>_get_identifier\<close> and the wrapper, which catches CacheMiss only, before the
  wrapped function or the cache is reached.
\<close>

theorem positional_fallback_bounds:
  "\<not> py_truthy fx \<and> \<not> py_truthy (kwargs_get kwargs kw) \<and> args \<noteq> [] \<longrightarrow>
     (if - int (length args) \<le> idx \<and> idx < int (length args)
      then py_index args idx
             = Inr (args ! nat (if idx < 0 then int (length args) + idx else idx))
           \<and> get_identifier g fx kw None idx args kwargs
             = Inr (args ! nat (if idx < 0 then int (length args) + idx else idx),
                    generate_identifier g
                      (py_str (args ! nat (if idx < 0 then int (length args) + idx else idx))))
      else get_identifier g fx kw app idx args kwargs = Inl IndexError
           \<and> cache_output g b fx kw app idx ttl func args kwargs w = (Inl IndexError, w))"
  by (auto simp: get_identifier_def cache_output_def bind_err_def py_index_def Let_def)

theorem positional_fallback_bounds_witness:
  "get_identifier (example_process True False ''P1'') PNone ''videoid'' None 1
       [PStr ''a'', PStr ''b''] Map.empty = Inr (PStr ''b'', ''P1_b'')
   \<and> get_identifier (example_process True False ''P1'') PNone ''videoid'' None (- 2)
       [PStr ''a'', PStr ''b''] Map.empty = Inr (PStr ''a'', ''P1_a'')
   \<and> cache_output (example_process True False ''P1'')
        (CACHE_COMMON (example_process True False ''P1'')) PNone ''videoid'' None 2 PNone
        example_func [PStr ''a'', PStr ''b''] Map.empty \<lparr>cache = [], calls = []\<rparr>
      = (Inl IndexError, \<lparr>cache = [], calls = []\<rparr>)"
  using
    positional_fallback_bounds [where fx = PNone and kwargs = Map.empty and kw = "''videoid''"
      and args = "[PStr ''a'', PStr ''b'']" and idx = 1
      and g = "example_process True False ''P1''"]
    positional_fallback_bounds [where fx = PNone and kwargs = Map.empty and kw = "''videoid''"
      and args = "[PStr ''a'', PStr ''b'']" and idx = "- 2"
      and g = "example_process True False ''P1''"]
    positional_fallback_bounds [where fx = PNone and kwargs = Map.empty and kw = "''videoid''"
      and args = "[PStr ''a'', PStr ''b'']" and idx = 2 and app = None and ttl = PNone
      and g = "example_process True False ''P1''" and func = example_func
      and b = "CACHE_COMMON (example_process True False ''P1'')"
      and w = "\<lparr>cache = [], calls = []\<rparr>"]
  by (simp add: kwargs_get_def generate_identifier_def example_process_def)

text \<open>
  As claimed, \<open>identify_fallback_arg_index < len(args)\<close> would be enough.  The index
  \<open>-3\<close> is below the length of a pair of arguments, and \<open>args[-3]\<close> is out of range.
\<close>

theorem negative_index_counterexample:
  "(- 3 :: int) < int (length [PStr ''a'', PStr ''b''])
   \<and> get_identifier (example_process True False ''P1'') PNone ''videoid'' None (- 3)
        [PStr ''a'', PStr ''b''] Map.empty = Inl IndexError"
  by (simp add: get_identifier_def bind_err_def kwargs_get_def py_index_def)

section \<open>The TTL of ``my list''\<close>

text \<open>
  C5, as the code has it.  With no \<open>ttl\<close> configured, when the positional fallback
  takes the value \<open>'mylist'\<close> (no fixed identifier, the kwarg absent or falsy, the
  positional argument at the index equal to \<open>'mylist'\<close>), a lookup that misses is
  followed by the call of the wrapped function and, when it returns, by an \<open>add\<close> of
  its output with the TTL \<open>min(g.CACHE_TTL, 7200)\<close>.
\<close>

theorem mylist_ttl_cap:
  "ttl = PNone \<and> \<not> py_truthy fx \<and> \<not> py_truthy (kwargs_get kwargs kw) \<and> args \<noteq> []
   \<and> py_index args idx = Inr (PStr ''mylist'')
   \<and> get_identifier g fx kw app idx args kwargs = Inr (av, ident)
   \<and> Cache_get g b (PStr ident) (cache w) = (Inl CacheMiss, sg)
   \<and> func args kwargs sg = (Inr out, sf) \<longrightarrow>
   cache_output g b fx kw app idx ttl func args kwargs w =
     (case Cache_add g b (PStr ident) out (PInt (min (CACHE_TTL g) 7200)) PNone sf of
        (Inl e, sa) \<Rightarrow> (Inl e, \<lparr>cache = sa, calls = calls w @ [(args, kwargs)]\<rparr>)
      | (Inr r, sa) \<Rightarrow> (Inr out, \<lparr>cache = sa, calls = calls w @ [(args, kwargs)]\<rparr>))"
proof (intro impI, elim conjE)
  assume h: "ttl = PNone" "\<not> py_truthy fx" "\<not> py_truthy (kwargs_get kwargs kw)" "args \<noteq> []"
    "py_index args idx = Inr (PStr ''mylist'')"
    "get_identifier g fx kw app idx args kwargs = Inr (av, ident)"
    "Cache_get g b (PStr ident) (cache w) = (Inl CacheMiss, sg)"
    "func args kwargs sg = (Inr out, sf)"
  have av: "av = PStr ''mylist''"
    using get_identifier_arg_value [OF h(2) h(3) h(4) h(5) h(6)] .
  show "cache_output g b fx kw app idx ttl func args kwargs w =
     (case Cache_add g b (PStr ident) out (PInt (min (CACHE_TTL g) 7200)) PNone sf of
        (Inl e, sa) \<Rightarrow> (Inl e, \<lparr>cache = sa, calls = calls w @ [(args, kwargs)]\<rparr>)
      | (Inr r, sa) \<Rightarrow> (Inr out, \<lparr>cache = sa, calls = calls w @ [(args, kwargs)]\<rparr>))"
    unfolding cache_output_miss [OF h(6) h(7)]
    using h(1) h(8) av
    by (simp add: on_cache_miss_def invoke_def py_or_def CACHE_MYLIST_TTL_MAX_def
          split: prod.splits sum.splits)
qed

theorem mylist_ttl_cap_witness:
  "map (\<lambda>(c, p). (c, p ''identifier'', p ''ttl''))
     (cache (snd (cache_output (example_process True False ''P1'')
        (CACHE_COMMON (example_process True False ''P1'')) PNone ''videoid'' None 0 PNone
        example_func [PStr ''mylist''] Map.empty \<lparr>cache = [], calls = []\<rparr>)))
   = [(''get'', Some (Val (PStr ''P1_mylist'')), None),
      (''add'', Some (Val (PStr ''P1_mylist'')), Some (Val (PInt 7200)))]"
  using mylist_ttl_cap [where ttl = PNone and fx = PNone and kwargs = Map.empty
      and kw = "''videoid''" and args = "[PStr ''mylist'']" and idx = 0 and app = None
      and g = "example_process True False ''P1''" and av = "PStr ''mylist''"
      and ident = "''P1_mylist''" and b = "CACHE_COMMON (example_process True False ''P1'')"
      and w = "\<lparr>cache = [], calls = []\<rparr>" and func = example_func
      and sg = "[(''get'', [''bucket'' \<mapsto> Bucket (CACHE_COMMON (example_process True False ''P1'')),
                            ''identifier'' \<mapsto> Val (PStr ''P1_mylist'')])]"
      and sf = "[(''get'', [''bucket'' \<mapsto> Bucket (CACHE_COMMON (example_process True False ''P1'')),
                            ''identifier'' \<mapsto> Val (PStr ''P1_mylist'')])]"
      and out = "PStr ''out:mylist''"]
  by (simp add: facade_defs example_defs get_identifier_def generate_identifier_def
        kwargs_get_def py_index_def)

text \<open>
  As claimed, the cap would also apply when \<open>'mylist'\<close> is the value of the kwarg.  Only
  the positional fallback sets \<open>arg_value\<close>: with \<open>videoid='mylist'\<close> as a keyword
  argument the \<open>add\<close> is sent with \<open>ttl=None\<close>, though the cap would be 7200.
\<close>

theorem mylist_kwarg_counterexample:
  "map (\<lambda>(c, p). (c, p ''identifier'', p ''ttl''))
     (cache (snd (cache_output (example_process True False ''P1'')
        (CACHE_COMMON (example_process True False ''P1'')) PNone ''videoid'' None 0 PNone
        example_func [] [''videoid'' \<mapsto> PStr ''mylist''] \<lparr>cache = [], calls = []\<rparr>)))
   = [(''get'', Some (Val (PStr ''P1_mylist'')), None),
      (''add'', Some (Val (PStr ''P1_mylist'')), Some (Val PNone))]
   \<and> min (CACHE_TTL (example_process True False ''P1'')) CACHE_MYLIST_TTL_MAX = 7200"
  by (simp add: facade_defs example_defs wrapper_defs)

section \<open>A call with no identifier\<close>

text \<open>
  C1 is what the comment in the wrapper intends (``Do not cache if identifier couldn't be
  determined''), and the code misses it: \<open>_get_identifier\<close> returns
  \<open>generate_identifier(str(identifier))\<close>, which is never empty, so the test
  \<open>not identifier\<close> never holds.  Called with no kwarg and no positional argument, the
  wrapper looks up \<open><guid>_None\<close>, stores the output of the wrapped function under it,
  and answers the next such call from the cache without calling the function.
\<close>

theorem no_identifier_call_is_cached:
  "fst (cache_output (example_process True False ''P1'')
        (CACHE_COMMON (example_process True False ''P1'')) PNone ''videoid'' None 0 PNone
        example_func [] Map.empty \<lparr>cache = [], calls = []\<rparr>) = Inr (PStr ''out:None'')
   \<and> map (\<lambda>(c, p). (c, p ''identifier'', p ''data''))
       (cache (snd (cache_output (example_process True False ''P1'')
        (CACHE_COMMON (example_process True False ''P1'')) PNone ''videoid'' None 0 PNone
        example_func [] Map.empty \<lparr>cache = [], calls = []\<rparr>)))
     = [(''get'', Some (Val (PStr ''P1_None'')), None),
        (''add'', Some (Val (PStr ''P1_None'')), Some (Payload ''Sout:None''))]
   \<and> (let w1 = snd (cache_output (example_process True False ''P1'')
        (CACHE_COMMON (example_process True False ''P1'')) PNone ''videoid'' None 0 PNone
        example_func [] Map.empty \<lparr>cache = [], calls = []\<rparr>);
           r2 = cache_output (example_process True False ''P1'')
        (CACHE_COMMON (example_process True False ''P1'')) PNone ''videoid'' None 0 PNone
        example_func [] Map.empty w1
       in fst r2 = Inr (PStr ''out:None'') \<and> calls w1 = [([], Map.empty)]
          \<and> calls (snd r2) = [([], Map.empty)])"
  by (simp add: facade_defs example_defs wrapper_defs)

section \<open>The facade\<close>

text \<open>
  C6.  \<open>_make_call\<close> hands a call to the in-process cache management when the process
  is the service, with the payload put into the \<open>data\<close> parameter when the parameters
  have one, and to the IPC cache channel otherwise, with the method name, the parameters
  as the facade built them and the payload beside them; what the callee returns or raises
  is what \<open>_make_call\<close> returns or raises.  For the four operations: \<open>get\<close> and
  \<open>delete\<close> send the bucket and the identifier, \<open>clear\<close> the bucket list and the
  database flag, \<open>add\<close> the bucket, the identifier, the TTL and the expiry with the
  serialized payload in \<open>data\<close> in the service and with \<open>data\<close> left \<open>None\<close> on the
  channel; \<open>get\<close> deserializes the answer, the other three return \<open>None\<close>.
\<close>

theorem facade_dispatch:
  "make_call g callname params data s =
     (if IS_SERVICE g
      then CACHE_MANAGEMENT g callname
             (case params ''data'' of None \<Rightarrow> params | Some x \<Rightarrow> params(''data'' \<mapsto> data)) s
      else make_http_call_cache g callname params data s)
   \<and> Cache_get g b i s =
     (case (if IS_SERVICE g
            then CACHE_MANAGEMENT g ''get''
                   [''bucket'' \<mapsto> Bucket b, ''identifier'' \<mapsto> Val (PStr (py_str i))] s
            else make_http_call_cache g ''get''
                   [''bucket'' \<mapsto> Bucket b, ''identifier'' \<mapsto> Val (PStr (py_str i))]
                   (Val PNone) s) of
        (Inl e, s') \<Rightarrow> (Inl e, s')
      | (Inr d, s') \<Rightarrow> (deserialize_data g d, s'))
   \<and> Cache_add g b i v ttl ex s =
     (case serialize_data g v of
        Inl e \<Rightarrow> (Inl e, s)
      | Inr p \<Rightarrow>
          (case (if IS_SERVICE g
                 then CACHE_MANAGEMENT g ''add''
                        [''bucket'' \<mapsto> Bucket b, ''identifier'' \<mapsto> Val (PStr (py_str i)),
                         ''data'' \<mapsto> Payload p, ''ttl'' \<mapsto> Val ttl, ''expires'' \<mapsto> Val ex] s
                 else make_http_call_cache g ''add''
                        [''bucket'' \<mapsto> Bucket b, ''identifier'' \<mapsto> Val (PStr (py_str i)),
                         ''data'' \<mapsto> Val PNone, ''ttl'' \<mapsto> Val ttl, ''expires'' \<mapsto> Val ex]
                        (Payload p) s) of
             (Inl e, s') \<Rightarrow> (Inl e, s')
           | (Inr r, s') \<Rightarrow> (Inr PNone, s')))
   \<and> Cache_delete g b i s =
     (case (if IS_SERVICE g
            then CACHE_MANAGEMENT g ''delete''
                   [''bucket'' \<mapsto> Bucket b, ''identifier'' \<mapsto> Val (PStr (py_str i))] s
            else make_http_call_cache g ''delete''
                   [''bucket'' \<mapsto> Bucket b, ''identifier'' \<mapsto> Val (PStr (py_str i))]
                   (Val PNone) s) of
        (Inl e, s') \<Rightarrow> (Inl e, s')
      | (Inr r, s') \<Rightarrow> (Inr PNone, s'))
   \<and> Cache_clear g buckets clear_database s =
     (case (if IS_SERVICE g
            then CACHE_MANAGEMENT g ''clear''
                   [''buckets'' \<mapsto> buckets, ''clear_database'' \<mapsto> Val (PBool clear_database)] s
            else make_http_call_cache g ''clear''
                   [''buckets'' \<mapsto> buckets, ''clear_database'' \<mapsto> Val (PBool clear_database)]
                   (Val PNone) s) of
        (Inl e, s') \<Rightarrow> (Inl e, s')
      | (Inr r, s') \<Rightarrow> (Inr PNone, s'))"
proof (intro conjI)
  show "Cache_add g b i v ttl ex s =
     (case serialize_data g v of
        Inl e \<Rightarrow> (Inl e, s)
      | Inr p \<Rightarrow>
          (case (if IS_SERVICE g
                 then CACHE_MANAGEMENT g ''add''
                        [''bucket'' \<mapsto> Bucket b, ''identifier'' \<mapsto> Val (PStr (py_str i)),
                         ''data'' \<mapsto> Payload p, ''ttl'' \<mapsto> Val ttl, ''expires'' \<mapsto> Val ex] s
                 else make_http_call_cache g ''add''
                        [''bucket'' \<mapsto> Bucket b, ''identifier'' \<mapsto> Val (PStr (py_str i)),
                         ''data'' \<mapsto> Val PNone, ''ttl'' \<mapsto> Val ttl, ''expires'' \<mapsto> Val ex]
                        (Payload p) s) of
             (Inl e, s') \<Rightarrow> (Inl e, s')
           | (Inr r, s') \<Rightarrow> (Inr PNone, s')))"
  proof (cases "serialize_data g v")
    case (Inl e)
    then show ?thesis by (simp add: Cache_add_def)
  next
    case (Inr p)
    have "(case [''bucket'' \<mapsto> Bucket b, ''identifier'' \<mapsto> Val (PStr (py_str i)),
                 ''data'' \<mapsto> Val PNone, ''ttl'' \<mapsto> Val ttl, ''expires'' \<mapsto> Val ex] ''data'' of
             None \<Rightarrow> [''bucket'' \<mapsto> Bucket b, ''identifier'' \<mapsto> Val (PStr (py_str i)),
                 ''data'' \<mapsto> Val PNone, ''ttl'' \<mapsto> Val ttl, ''expires'' \<mapsto> Val ex]
           | Some x \<Rightarrow> [''bucket'' \<mapsto> Bucket b, ''identifier'' \<mapsto> Val (PStr (py_str i)),
                 ''data'' \<mapsto> Val PNone, ''ttl'' \<mapsto> Val ttl, ''expires'' \<mapsto> Val ex]
                 (''data'' \<mapsto> Payload p))
          = [''bucket'' \<mapsto> Bucket b, ''identifier'' \<mapsto> Val (PStr (py_str i)),
             ''data'' \<mapsto> Payload p, ''ttl'' \<mapsto> Val ttl, ''expires'' \<mapsto> Val ex]"
      by (rule ext) simp
    with Inr show ?thesis
      by (simp only: Cache_add_def make_call_def sum.case split: if_split)
  qed
qed (simp_all add: make_call_def Cache_get_def Cache_delete_def Cache_clear_def)

section \<open>The codec\<close>

text \<open>Decoding undoes encoding: a full group of three bytes is read back from its four
  characters, a last group of two or one from its characters before the padding.\<close>

lemma b64_index_char: "n < 64 \<Longrightarrow> b64_index (b64_char n) = Some n"
  by (auto simp: b64_index_def b64_char_def Let_def)

lemma b64_char_not_pad: "n < 64 \<Longrightarrow> b64_char n \<noteq> CHR ''=''"
proof
  assume n: "n < 64" and eq: "b64_char n = CHR ''=''"
  have "b64_index (b64_char n) = Some n"
    using n by (rule b64_index_char)
  moreover have "b64_index CHR ''='' = None"
    by (simp add: b64_index_def)
  ultimately show False
    using eq by simp
qed

lemma a2b_sextet:
  assumes "n < 64"
  shows "a2b_base64 (b64_char n # s) q lc lb out =
     (if 8 \<le> lb + 6
      then a2b_base64 s ((q + 1) mod 4) ((lc * 64 + n) mod 2 ^ (lb + 6 - 8)) (lb + 6 - 8)
             (out @ [char_of ((lc * 64 + n) div 2 ^ (lb + 6 - 8))])
      else a2b_base64 s ((q + 1) mod 4) (lc * 64 + n) (lb + 6) out)"
  using b64_index_char [OF assms] b64_char_not_pad [OF assms]
  by (simp add: a2b_base64.simps(2) Let_def)

lemma a2b_first_two:
  fixes x v :: nat
  assumes "x < 256" "v < 16"
  shows "a2b_base64 (b64_char (x div 4) # b64_char ((x mod 4) * 16 + v) # s) 0 0 0 out
       = a2b_base64 s 2 v 4 (out @ [char_of x])"
proof -
  have b: "x div 4 < 64" "(x mod 4) * 16 + v < 64"
    using assms by arith+
  have k: "x div 4 * 64 + ((x mod 4) * 16 + v) = x * 16 + v"
    using div_mult_mod_eq [of x 4] by linarith
  have e: "(x div 4 * 64 + ((x mod 4) * 16 + v)) div 16 = x"
       "(x div 4 * 64 + ((x mod 4) * 16 + v)) mod 16 = v"
    unfolding k using assms(2) by simp_all
  show ?thesis
    by (simp add: a2b_sextet [OF b(1)] a2b_sextet [OF b(2)] e) (simp add: numeral_2_eq_2)
qed

lemma a2b_third:
  fixes y v u :: nat
  assumes "y < 256" "v = y div 16" "u < 4"
  shows "a2b_base64 (b64_char ((y mod 16) * 4 + u) # s) 2 v 4 out
       = a2b_base64 s 3 u 2 (out @ [char_of y])"
proof -
  have b: "(y mod 16) * 4 + u < 64"
    using assms(3) by arith
  have k: "y div 16 * 64 + ((y mod 16) * 4 + u) = y * 4 + u"
    using div_mult_mod_eq [of y 16] by linarith
  have e: "(y div 16 * 64 + ((y mod 16) * 4 + u)) div 4 = y"
       "(y div 16 * 64 + ((y mod 16) * 4 + u)) mod 4 = u"
    unfolding k using assms(3) by simp_all
  show ?thesis
    by (simp add: a2b_sextet [OF b] assms(2) e)
qed

lemma a2b_fourth:
  fixes z u :: nat
  assumes "z < 256" "u = z div 64"
  shows "a2b_base64 (b64_char (z mod 64) # s) 3 u 2 out
       = a2b_base64 s 0 0 0 (out @ [char_of z])"
proof -
  have b: "z mod 64 < 64"
    by simp
  have e: "z div 64 * 64 + z mod 64 = z"
    by simp
  show ?thesis
    by (simp add: a2b_sextet [OF b] assms(2) e)
qed

lemma a2b_encode: "a2b_base64 (standard_b64encode bs) 0 0 0 out = Inr (out @ bs)"
proof (induction bs arbitrary: out rule: standard_b64encode.induct)
  case (1 a b c rest)
  define x y z :: nat where "x = of_char a" and "y = of_char b" and "z = of_char c"
  have x: "x < 256" and y: "y < 256" and z: "z < 256"
    by (simp_all add: x_def y_def z_def)
  have ch: "char_of x = a" "char_of y = b" "char_of z = c"
    by (simp_all add: x_def y_def z_def)
  have v: "y div 16 < 16" and u: "z div 64 < 4"
    using y z by arith+
  have "a2b_base64 (standard_b64encode (a # b # c # rest)) 0 0 0 out
      = a2b_base64 (b64_char (x div 4) # b64_char ((x mod 4) * 16 + y div 16) #
          b64_char ((y mod 16) * 4 + z div 64) # b64_char (z mod 64) #
          standard_b64encode rest) 0 0 0 out"
    by (simp add: Let_def x_def y_def z_def)
  also have "\<dots> = a2b_base64 (b64_char ((y mod 16) * 4 + z div 64) # b64_char (z mod 64) #
          standard_b64encode rest) 2 (y div 16) 4 (out @ [a])"
    by (simp only: a2b_first_two [OF x v] ch)
  also have "\<dots> = a2b_base64 (b64_char (z mod 64) # standard_b64encode rest) 3 (z div 64) 2
          ((out @ [a]) @ [b])"
    by (simp only: a2b_third [OF y refl u] ch)
  also have "\<dots> = a2b_base64 (standard_b64encode rest) 0 0 0 (((out @ [a]) @ [b]) @ [c])"
    by (simp only: a2b_fourth [OF z refl] ch)
  also have "\<dots> = Inr ((((out @ [a]) @ [b]) @ [c]) @ rest)"
    by (rule "1.IH" [OF refl refl refl])
  finally show ?case by simp
next
  case (2 a b)
  define x y :: nat where "x = of_char a" and "y = of_char b"
  have x: "x < 256" and y: "y < 256"
    by (simp_all add: x_def y_def)
  have ch: "char_of x = a" "char_of y = b"
    by (simp_all add: x_def y_def)
  have v: "y div 16 < 16"
    using y by arith
  have "a2b_base64 (standard_b64encode [a, b]) 0 0 0 out
      = a2b_base64 (b64_char (x div 4) # b64_char ((x mod 4) * 16 + y div 16) #
          b64_char ((y mod 16) * 4 + 0) # ''='') 0 0 0 out"
    by (simp add: Let_def x_def y_def)
  also have "\<dots> = a2b_base64 (b64_char ((y mod 16) * 4 + 0) # ''='') 2 (y div 16) 4 (out @ [a])"
    by (simp only: a2b_first_two [OF x v] ch)
  also have "\<dots> = a2b_base64 ''='' 3 0 2 ((out @ [a]) @ [b])"
    by (simp only: a2b_third [OF y refl zero_less_numeral] ch)
  also have "\<dots> = Inr ((out @ [a]) @ [b])"
    by (simp add: a2b_base64.simps(2))
  finally show ?case by simp
next
  case (3 a)
  define x :: nat where "x = of_char a"
  have x: "x < 256"
    by (simp add: x_def)
  have ch: "char_of x = a"
    by (simp add: x_def)
  have "a2b_base64 (standard_b64encode [a]) 0 0 0 out
      = a2b_base64 (b64_char (x div 4) # b64_char ((x mod 4) * 16 + 0) # ''=='') 0 0 0 out"
    by (simp add: Let_def x_def)
  also have "\<dots> = a2b_base64 ''=='' 2 0 4 (out @ [a])"
    by (simp only: a2b_first_two [OF x zero_less_numeral] ch)
  also have "\<dots> = Inr (out @ [a])"
    by (simp add: a2b_base64.simps(2) b64_valid_def)
  finally show ?case by simp
next
  case 4
  then show ?case by simp
qed

lemma b64_round_trip: "standard_b64decode (standard_b64encode bs) = Inr bs"
  by (simp add: standard_b64decode_def a2b_encode)

lemma b64encode_example: "standard_b64encode ''Sv'' = ''U3Y=''"
  by code_simp

text \<open>
  C8.  For every value that pickle carries (\<open>pickle.dumps\<close> gives the bytes \<open>p\<close> and
  \<open>pickle.loads\<close> gives the value back from \<open>p\<close>), \<open>_serialize_data\<close> returns \<open>p\<close> on
  Python 3 and the base64 text of \<open>p\<close> on Python 2, and \<open>_deserialize_data\<close> of what
  \<open>_serialize_data\<close> returned is the value again, on both paths.
\<close>

theorem codec_round_trip:
  "pickle_dumps g v = Inr p \<and> pickle_loads g p = Inr v \<longrightarrow>
     serialize_data g v = Inr (if PY_IS_VER2 g then standard_b64encode p else p)
     \<and> deserialize_data g (Payload (if PY_IS_VER2 g then standard_b64encode p else p)) = Inr v
     \<and> bind_err (serialize_data g v) (\<lambda>x. deserialize_data g (Payload x)) = Inr v"
  by (simp add: serialize_data_def deserialize_data_def bind_err_def as_bytes_def
        b64_round_trip)

theorem codec_round_trip_witness:
  "serialize_data (example_process True True ''P1'') (PStr ''v'') = Inr ''U3Y=''
   \<and> deserialize_data (example_process True True ''P1'') (Payload ''U3Y='') = Inr (PStr ''v'')
   \<and> serialize_data (example_process True False ''P1'') (PStr ''v'') = Inr ''Sv''
   \<and> deserialize_data (example_process True False ''P1'') (Payload ''Sv'') = Inr (PStr ''v'')"
  using codec_round_trip [where g = "example_process True True ''P1''" and v = "PStr ''v''"
      and p = "''Sv''"]
    codec_round_trip [where g = "example_process True False ''P1''" and v = "PStr ''v''"
      and p = "''Sv''"]
  by (simp add: example_process_def tag_dumps_def tag_loads_def bind_err_def
        b64encode_example del: standard_b64encode.simps)

section \<open>Profiles\<close>

lemma fst_Cache_get:
  "fst (Cache_get g b i s) =
     bind_err (fst (make_call g ''get''
        [''bucket'' \<mapsto> Bucket b, ''identifier'' \<mapsto> Val (PStr (py_str i))] (Val PNone) s))
       (deserialize_data g)"
  by (simp add: Cache_get_def bind_err_def split: prod.splits sum.splits)

lemma snd_Cache_add:
  "snd (Cache_add g b i v t e s) =
     (case serialize_data g v of
        Inl x \<Rightarrow> s
      | Inr payload \<Rightarrow>
          snd (make_call g ''add''
                 [''bucket'' \<mapsto> Bucket b, ''identifier'' \<mapsto> Val (PStr (py_str i)),
                  ''data'' \<mapsto> Val PNone, ''ttl'' \<mapsto> Val t, ''expires'' \<mapsto> Val e]
                 (Payload payload) s))"
  by (simp add: Cache_add_def split: prod.splits sum.splits)

lemma make_call_profile:
  "make_call (g\<lparr>active_profile_guid := guid\<rparr>) = make_call g"
  by (intro ext) (simp add: make_call_def)

lemma deserialize_data_profile:
  "deserialize_data (g\<lparr>active_profile_guid := guid\<rparr>) = deserialize_data g"
  by (intro ext) (simp add: deserialize_data_def)

lemma serialize_data_profile:
  "serialize_data (g\<lparr>active_profile_guid := guid\<rparr>) = serialize_data g"
  by (intro ext) (simp add: serialize_data_def)

lemma get_identifier_profile:
  "get_identifier g fx kw app idx args kwargs = Inr (av, ident) \<Longrightarrow>
     \<exists>p. ident = active_profile_guid g @ ''_'' @ p
       \<and> get_identifier (g\<lparr>active_profile_guid := guid\<rparr>) fx kw app idx args kwargs
           = Inr (av, guid @ ''_'' @ p)"
  by (auto simp: get_identifier_def generate_identifier_def bind_err_def Let_def
           split: if_splits sum.splits option.splits prod.splits)

text \<open>The journal of the examples is keyed by bucket and identifier, and a \<open>get\<close>
  right after an \<open>add\<close> finds what was added.\<close>

lemma journal_keyed:
  "i \<noteq> j \<Longrightarrow>
      fst (make_call (example_process sv py guid) ''get''
             [''bucket'' \<mapsto> Bucket b, ''identifier'' \<mapsto> Val (PStr j)] (Val PNone)
             (snd (make_call (example_process sv py guid) ''add''
                     [''bucket'' \<mapsto> Bucket b, ''identifier'' \<mapsto> Val (PStr i),
                      ''data'' \<mapsto> Val PNone, ''ttl'' \<mapsto> Val t, ''expires'' \<mapsto> Val e]
                     (Payload d) s)))
      = fst (make_call (example_process sv py guid) ''get''
               [''bucket'' \<mapsto> Bucket b, ''identifier'' \<mapsto> Val (PStr j)] (Val PNone) s)"
  by (simp add: make_call_def example_process_def journal_call_def journal_http_def
        same_key_def)

lemma journal_read_your_write:
  "make_call (example_process sv py guid) ''add''
       [''bucket'' \<mapsto> Bucket b, ''identifier'' \<mapsto> Val (PStr i),
        ''data'' \<mapsto> Val PNone, ''ttl'' \<mapsto> Val t, ''expires'' \<mapsto> Val e]
       (Payload d) s = (Inr r, sa) \<Longrightarrow>
   fst (make_call (example_process sv py guid) ''get''
          [''bucket'' \<mapsto> Bucket b, ''identifier'' \<mapsto> Val (PStr i)] (Val PNone) sa)
     = Inr (Payload d)"
  by (auto simp: make_call_def example_process_def journal_call_def journal_http_def
        same_key_def split: if_splits)

text \<open>
  C4.  Every identifier the wrapper derives, one from a fixed identifier included, and
  every identifier made by \<open>generate_identifier\<close>, is the guid of the active profile, an
  underscore, and the partial identifier; the partial identifier does not depend on the
  profile.  Under two different profiles the same partial identifier gives two different
  identifiers.  So, for a cache management that keeps entries by bucket and identifier
  (an \<open>add\<close> under one identifier does not change what a \<open>get\<close> under another
  answers), what is added under the partial identifier while profile A is active does
  not change what a \<open>get\<close> under the same partial identifier answers while profile B
  is active.
\<close>

theorem profile_isolation:
  assumes keyed: "\<And>i j d t e s. i \<noteq> j \<Longrightarrow>
      fst (make_call g ''get'' [''bucket'' \<mapsto> Bucket b, ''identifier'' \<mapsto> Val (PStr j)]
             (Val PNone)
             (snd (make_call g ''add''
                     [''bucket'' \<mapsto> Bucket b, ''identifier'' \<mapsto> Val (PStr i),
                      ''data'' \<mapsto> Val PNone, ''ttl'' \<mapsto> Val t, ''expires'' \<mapsto> Val e]
                     (Payload d) s)))
      = fst (make_call g ''get'' [''bucket'' \<mapsto> Bucket b, ''identifier'' \<mapsto> Val (PStr j)]
               (Val PNone) s)"
    and profiles: "guidA \<noteq> guidB"
  shows "generate_identifier (g\<lparr>active_profile_guid := guidA\<rparr>) p = guidA @ ''_'' @ p
    \<and> (py_truthy fx \<longrightarrow>
          get_identifier (g\<lparr>active_profile_guid := guidA\<rparr>) fx kw app idx args kwargs
            = Inr (PNone, guidA @ ''_'' @ py_str fx))
    \<and> (get_identifier (g\<lparr>active_profile_guid := guidA\<rparr>) fx kw app idx args kwargs
          = Inr (av, ident) \<longrightarrow>
        (\<exists>q. ident = guidA @ ''_'' @ q
           \<and> get_identifier (g\<lparr>active_profile_guid := guidB\<rparr>) fx kw app idx args kwargs
               = Inr (av, guidB @ ''_'' @ q)))
    \<and> generate_identifier (g\<lparr>active_profile_guid := guidA\<rparr>) p
        \<noteq> generate_identifier (g\<lparr>active_profile_guid := guidB\<rparr>) p
    \<and> fst (Cache_get (g\<lparr>active_profile_guid := guidB\<rparr>) b
              (PStr (generate_identifier (g\<lparr>active_profile_guid := guidB\<rparr>) p))
              (snd (Cache_add (g\<lparr>active_profile_guid := guidA\<rparr>) b
                      (PStr (generate_identifier (g\<lparr>active_profile_guid := guidA\<rparr>) p))
                      v ttl ex s)))
      = fst (Cache_get (g\<lparr>active_profile_guid := guidB\<rparr>) b
               (PStr (generate_identifier (g\<lparr>active_profile_guid := guidB\<rparr>) p)) s)"
proof (intro conjI impI)
  show "generate_identifier (g\<lparr>active_profile_guid := guidA\<rparr>) p = guidA @ ''_'' @ p"
    by (simp add: generate_identifier_def)
next
  assume "py_truthy fx"
  then show "get_identifier (g\<lparr>active_profile_guid := guidA\<rparr>) fx kw app idx args kwargs
            = Inr (PNone, guidA @ ''_'' @ py_str fx)"
    by (simp add: get_identifier_def generate_identifier_def)
next
  assume "get_identifier (g\<lparr>active_profile_guid := guidA\<rparr>) fx kw app idx args kwargs
          = Inr (av, ident)"
  from get_identifier_profile [OF this, of guidB]
  show "\<exists>q. ident = guidA @ ''_'' @ q
           \<and> get_identifier (g\<lparr>active_profile_guid := guidB\<rparr>) fx kw app idx args kwargs
               = Inr (av, guidB @ ''_'' @ q)"
    by simp
next
  show differ: "generate_identifier (g\<lparr>active_profile_guid := guidA\<rparr>) p
        \<noteq> generate_identifier (g\<lparr>active_profile_guid := guidB\<rparr>) p"
    using profiles by (simp add: generate_identifier_def)
  show "fst (Cache_get (g\<lparr>active_profile_guid := guidB\<rparr>) b
              (PStr (generate_identifier (g\<lparr>active_profile_guid := guidB\<rparr>) p))
              (snd (Cache_add (g\<lparr>active_profile_guid := guidA\<rparr>) b
                      (PStr (generate_identifier (g\<lparr>active_profile_guid := guidA\<rparr>) p))
                      v ttl ex s)))
      = fst (Cache_get (g\<lparr>active_profile_guid := guidB\<rparr>) b
               (PStr (generate_identifier (g\<lparr>active_profile_guid := guidB\<rparr>) p)) s)"
  proof (cases "serialize_data g v")
    case (Inl e)
    then show ?thesis
      by (simp add: snd_Cache_add serialize_data_profile)
  next
    case (Inr payload)
    then show ?thesis
      using keyed [OF differ]
      by (simp add: fst_Cache_get snd_Cache_add serialize_data_profile make_call_profile
            deserialize_data_profile)
  qed
qed

theorem profile_isolation_witness:
  "get_identifier (example_process True False ''A'') PNone ''videoid'' None 0 [PStr ''show1'']
       Map.empty = Inr (PStr ''show1'', ''A_show1'')
   \<and> get_identifier (example_process True False ''B'') PNone ''videoid'' None 0 [PStr ''show1'']
       Map.empty = Inr (PStr ''show1'', ''B_show1'')
   \<and> ''A_show1'' \<noteq> ''B_show1''
   \<and> fst (Cache_get (example_process True False ''A'')
            (CACHE_COMMON (example_process True False ''A'')) (PStr ''A_show1'')
            (snd (Cache_add (example_process True False ''A'')
                    (CACHE_COMMON (example_process True False ''A'')) (PStr ''A_show1'')
                    (PStr ''v'') PNone PNone []))) = Inr (PStr ''v'')
   \<and> fst (Cache_get (example_process True False ''B'')
            (CACHE_COMMON (example_process True False ''A'')) (PStr ''B_show1'')
            (snd (Cache_add (example_process True False ''A'')
                    (CACHE_COMMON (example_process True False ''A'')) (PStr ''A_show1'')
                    (PStr ''v'') PNone PNone []))) = Inl CacheMiss"
  using profile_isolation [where g = "example_process True False ''A''"
      and b = "CACHE_COMMON (example_process True False ''A'')" and guidA = "''A''"
      and guidB = "''B''" and p = "''show1''" and fx = PNone and kw = "''videoid''"
      and app = None and idx = 0 and args = "[PStr ''show1'']" and kwargs = Map.empty
      and av = "PStr ''show1''" and ident = "''A_show1''" and v = "PStr ''v''"
      and ttl = PNone and ex = PNone and s = "[]", OF journal_keyed]
  by (simp add: facade_defs example_defs get_identifier_def generate_identifier_def
        kwargs_get_def py_index_def)

section \<open>Memoization\<close>

lemma deserialize_serialize:
  "pickle_dumps g v = Inr p \<Longrightarrow> pickle_loads g p = Inr v \<Longrightarrow> serialize_data g v = Inr y \<Longrightarrow>
     deserialize_data g (Payload y) = Inr v"
  by (auto simp: serialize_data_def deserialize_data_def bind_err_def as_bytes_def
        b64_round_trip split: if_splits)

lemma Cache_add_Inr:
  "Cache_add g b i v t e s = (Inr r, sa) \<Longrightarrow>
     \<exists>payload r'. serialize_data g v = Inr payload
       \<and> make_call g ''add''
            [''bucket'' \<mapsto> Bucket b, ''identifier'' \<mapsto> Val (PStr (py_str i)),
             ''data'' \<mapsto> Val PNone, ''ttl'' \<mapsto> Val t, ''expires'' \<mapsto> Val e]
            (Payload payload) s = (Inr r', sa)"
  by (auto simp: Cache_add_def split: sum.splits prod.splits)

lemma calls_on_cache_miss:
  "calls (snd (on_cache_miss g b i ttl tov func args kwargs w)) = calls w @ [(args, kwargs)]"
  by (simp add: on_cache_miss_def invoke_def split: prod.splits sum.splits)

lemma cache_output_hit:
  assumes "get_identifier g fx kw app idx args kwargs = Inr (av, ident)"
    and "Cache_get g b (PStr ident) (cache w) = (Inr v, sg)"
  shows "cache_output g b fx kw app idx ttl func args kwargs w = (Inr v, w\<lparr>cache := sg\<rparr>)"
  using assms get_identifier_nonempty [OF assms(1)]
  by (simp add: cache_output_def Let_def)

text \<open>
  C2.  When the identifier is derived, the lookup misses, the wrapped function returns
  \<open>out\<close> and the \<open>add\<close> goes through, the wrapper has called the function once, with
  the arguments of the call and in the state the lookup left, has added \<open>out\<close> under the
  bucket and the identifier with the TTL \<open>ttl or ttl_override\<close>, and returns \<open>out\<close>;
  and whenever the lookup of that identifier hits, the value found is returned and the
  function is not called.  This holds for every way the identifier is derived, a fixed
  identifier included.  The cache management is a parameter, so what the rest needs of it
  is stated where it is needed.  If a \<open>get\<close> right after an \<open>add\<close> answers with the
  payload added, and \<open>out\<close> is a value pickle carries, the same call made again returns
  \<open>out\<close> and the log of calls to the function is unchanged.  If an \<open>add\<close> under one
  identifier does not change what a \<open>get\<close> under another answers, then for a call
  whose identifier is another one the lookup answers as it would have without the first
  call, so that when its entry is absent the function is called with the arguments of
  that call and the miss branch runs for them.
\<close>

theorem memoize_miss_then_hit:
  assumes override: "t = py_or ttl (if ttl = PNone \<and> av = PStr ''mylist''
                       then PInt (min (CACHE_TTL g) CACHE_MYLIST_TTL_MAX) else PNone)"
    and ident: "get_identifier g fx kw app idx args kwargs = Inr (av, ident)"
    and miss: "Cache_get g b (PStr ident) (cache w) = (Inl CacheMiss, sg)"
    and run: "func args kwargs sg = (Inr out, sf)"
    and added: "Cache_add g b (PStr ident) out t PNone sf = (Inr r, sa)"
  shows "cache_output g b fx kw app idx ttl func args kwargs w
       = (Inr out, \<lparr>cache = sa, calls = calls w @ [(args, kwargs)]\<rparr>)
    \<and> (Cache_get g b (PStr ident) (cache wh) = (Inr hv, sh) \<longrightarrow>
         cache_output g b fx kw app idx ttl func args kwargs wh = (Inr hv, wh\<lparr>cache := sh\<rparr>))
    \<and> ((\<forall>i d st ra sx.
           make_call g ''add''
             [''bucket'' \<mapsto> Bucket b, ''identifier'' \<mapsto> Val (PStr i),
              ''data'' \<mapsto> Val PNone, ''ttl'' \<mapsto> Val t, ''expires'' \<mapsto> Val PNone]
             (Payload d) st = (Inr ra, sx) \<longrightarrow>
           fst (make_call g ''get''
                  [''bucket'' \<mapsto> Bucket b, ''identifier'' \<mapsto> Val (PStr i)]
                  (Val PNone) sx) = Inr (Payload d))
         \<and> pickle_dumps g out = Inr p \<and> pickle_loads g p = Inr out \<longrightarrow>
         fst (cache_output g b fx kw app idx ttl func args kwargs
                \<lparr>cache = sa, calls = calls w @ [(args, kwargs)]\<rparr>) = Inr out
         \<and> calls (snd (cache_output g b fx kw app idx ttl func args kwargs
                         \<lparr>cache = sa, calls = calls w @ [(args, kwargs)]\<rparr>))
             = calls w @ [(args, kwargs)])
    \<and> ((\<forall>i j d st. i \<noteq> j \<longrightarrow>
           fst (make_call g ''get''
                  [''bucket'' \<mapsto> Bucket b, ''identifier'' \<mapsto> Val (PStr j)] (Val PNone)
                  (snd (make_call g ''add''
                          [''bucket'' \<mapsto> Bucket b, ''identifier'' \<mapsto> Val (PStr i),
                           ''data'' \<mapsto> Val PNone, ''ttl'' \<mapsto> Val t,
                           ''expires'' \<mapsto> Val PNone]
                          (Payload d) st)))
           = fst (make_call g ''get''
                    [''bucket'' \<mapsto> Bucket b, ''identifier'' \<mapsto> Val (PStr j)]
                    (Val PNone) st))
         \<and> get_identifier g fx kw app idx oargs okwargs = Inr (oav, oident)
         \<and> oident \<noteq> ident \<longrightarrow>
         fst (Cache_get g b (PStr oident) sa) = fst (Cache_get g b (PStr oident) sf)
         \<and> (fst (Cache_get g b (PStr oident) sf) = Inl CacheMiss \<longrightarrow>
              calls (snd (cache_output g b fx kw app idx ttl func oargs okwargs
                            \<lparr>cache = sa, calls = calls w @ [(args, kwargs)]\<rparr>))
                = calls w @ [(args, kwargs), (oargs, okwargs)]
              \<and> cache_output g b fx kw app idx ttl func oargs okwargs
                    \<lparr>cache = sa, calls = calls w @ [(args, kwargs)]\<rparr>
                = on_cache_miss g b oident ttl
                    (if ttl = PNone \<and> oav = PStr ''mylist''
                     then PInt (min (CACHE_TTL g) CACHE_MYLIST_TTL_MAX) else PNone)
                    func oargs okwargs
                    \<lparr>cache = snd (Cache_get g b (PStr oident) sa),
                       calls = calls w @ [(args, kwargs)]\<rparr>))"
proof -
  let ?w = "\<lparr>cache = sa, calls = calls w @ [(args, kwargs)]\<rparr>"
  have first: "cache_output g b fx kw app idx ttl func args kwargs w = (Inr out, ?w)"
    using run added override
    by (simp add: cache_output_miss [OF ident miss] on_cache_miss_def invoke_def)
  from Cache_add_Inr [OF added] obtain payload r' where
    ser: "serialize_data g out = Inr payload" and
    sent: "make_call g ''add''
            [''bucket'' \<mapsto> Bucket b, ''identifier'' \<mapsto> Val (PStr ident),
             ''data'' \<mapsto> Val PNone, ''ttl'' \<mapsto> Val t, ''expires'' \<mapsto> Val PNone]
            (Payload payload) sf = (Inr r', sa)"
    by auto
  have hit: "cache_output g b fx kw app idx ttl func args kwargs wh = (Inr hv, wh\<lparr>cache := sh\<rparr>)"
    if "Cache_get g b (PStr ident) (cache wh) = (Inr hv, sh)"
    by (rule cache_output_hit [OF ident that])
  have second: "fst (cache_output g b fx kw app idx ttl func args kwargs ?w) = Inr out
         \<and> calls (snd (cache_output g b fx kw app idx ttl func args kwargs ?w))
             = calls w @ [(args, kwargs)]"
    if law: "\<forall>i d st ra sx.
           make_call g ''add''
             [''bucket'' \<mapsto> Bucket b, ''identifier'' \<mapsto> Val (PStr i),
              ''data'' \<mapsto> Val PNone, ''ttl'' \<mapsto> Val t, ''expires'' \<mapsto> Val PNone]
             (Payload d) st = (Inr ra, sx) \<longrightarrow>
           fst (make_call g ''get''
                  [''bucket'' \<mapsto> Bucket b, ''identifier'' \<mapsto> Val (PStr i)]
                  (Val PNone) sx) = Inr (Payload d)"
      and pickles: "pickle_dumps g out = Inr p" "pickle_loads g p = Inr out"
  proof -
    from law sent have "fst (make_call g ''get''
                  [''bucket'' \<mapsto> Bucket b, ''identifier'' \<mapsto> Val (PStr ident)]
                  (Val PNone) sa) = Inr (Payload payload)"
      by blast
    then have "fst (Cache_get g b (PStr ident) sa) = Inr out"
      using deserialize_serialize [OF pickles ser]
      by (simp add: fst_Cache_get bind_err_def)
    then obtain sh where "Cache_get g b (PStr ident) (cache ?w) = (Inr out, sh)"
      by (cases "Cache_get g b (PStr ident) sa") simp
    from cache_output_hit [OF ident this] show ?thesis
      by simp
  qed
  have sa: "sa = snd (make_call g ''add''
            [''bucket'' \<mapsto> Bucket b, ''identifier'' \<mapsto> Val (PStr ident),
             ''data'' \<mapsto> Val PNone, ''ttl'' \<mapsto> Val t, ''expires'' \<mapsto> Val PNone]
            (Payload payload) sf)"
    using sent by simp
  have frame: "fst (Cache_get g b (PStr oident) sa) = fst (Cache_get g b (PStr oident) sf)"
    if keyed: "\<forall>i j d st. i \<noteq> j \<longrightarrow>
           fst (make_call g ''get''
                  [''bucket'' \<mapsto> Bucket b, ''identifier'' \<mapsto> Val (PStr j)] (Val PNone)
                  (snd (make_call g ''add''
                          [''bucket'' \<mapsto> Bucket b, ''identifier'' \<mapsto> Val (PStr i),
                           ''data'' \<mapsto> Val PNone, ''ttl'' \<mapsto> Val t,
                           ''expires'' \<mapsto> Val PNone]
                          (Payload d) st)))
           = fst (make_call g ''get''
                    [''bucket'' \<mapsto> Bucket b, ''identifier'' \<mapsto> Val (PStr j)]
                    (Val PNone) st)"
      and differ: "oident \<noteq> ident"
  proof -
    from differ have "ident \<noteq> oident"
      by simp
    with keyed have "fst (make_call g ''get''
                  [''bucket'' \<mapsto> Bucket b, ''identifier'' \<mapsto> Val (PStr oident)] (Val PNone)
                  (snd (make_call g ''add''
                          [''bucket'' \<mapsto> Bucket b, ''identifier'' \<mapsto> Val (PStr ident),
                           ''data'' \<mapsto> Val PNone, ''ttl'' \<mapsto> Val t,
                           ''expires'' \<mapsto> Val PNone]
                          (Payload payload) sf)))
           = fst (make_call g ''get''
                    [''bucket'' \<mapsto> Bucket b, ''identifier'' \<mapsto> Val (PStr oident)]
                    (Val PNone) sf)"
      by blast
    then show ?thesis
      by (simp add: fst_Cache_get sa [symmetric])
  qed
  have third: "calls (snd (cache_output g b fx kw app idx ttl func oargs okwargs ?w))
           = calls w @ [(args, kwargs), (oargs, okwargs)]
         \<and> cache_output g b fx kw app idx ttl func oargs okwargs ?w
           = on_cache_miss g b oident ttl
               (if ttl = PNone \<and> oav = PStr ''mylist''
                then PInt (min (CACHE_TTL g) CACHE_MYLIST_TTL_MAX) else PNone)
               func oargs okwargs
               \<lparr>cache = snd (Cache_get g b (PStr oident) sa),
                  calls = calls w @ [(args, kwargs)]\<rparr>"
    if other: "get_identifier g fx kw app idx oargs okwargs = Inr (oav, oident)"
      and fr: "fst (Cache_get g b (PStr oident) sa) = fst (Cache_get g b (PStr oident) sf)"
      and absent: "fst (Cache_get g b (PStr oident) sf) = Inl CacheMiss"
  proof -
    from absent fr obtain sm where
      sm: "Cache_get g b (PStr oident) (cache ?w) = (Inl CacheMiss, sm)"
      by (cases "Cache_get g b (PStr oident) sa") simp
    then have "snd (Cache_get g b (PStr oident) sa) = sm"
      by simp
    with cache_output_miss [OF other sm] show ?thesis
      by (simp add: calls_on_cache_miss)
  qed
  show ?thesis
  proof (intro conjI impI)
    show "cache_output g b fx kw app idx ttl func args kwargs w = (Inr out, ?w)"
      by (rule first)
  next
    assume "Cache_get g b (PStr ident) (cache wh) = (Inr hv, sh)"
    then show "cache_output g b fx kw app idx ttl func args kwargs wh
        = (Inr hv, wh\<lparr>cache := sh\<rparr>)"
      by (rule hit)
  qed (use second frame third in blast)+
qed

theorem memoize_miss_then_hit_witness:
  "(let g = example_process True False ''P1'';
        first = cache_output g (CACHE_COMMON g) PNone ''videoid'' None 0 PNone example_func
                  [PStr ''show1''] Map.empty \<lparr>cache = [], calls = []\<rparr>;
        again = cache_output g (CACHE_COMMON g) PNone ''videoid'' None 0 PNone example_func
                  [PStr ''show1''] Map.empty (snd first);
        other = cache_output g (CACHE_COMMON g) PNone ''videoid'' None 0 PNone example_func
                  [PStr ''show2''] Map.empty (snd first)
    in fst first = Inr (PStr ''out:show1'')
       \<and> calls (snd first) = [([PStr ''show1''], Map.empty)]
       \<and> map (\<lambda>(c, p). (c, p ''identifier'', p ''data'', p ''ttl'')) (cache (snd first))
           = [(''get'', Some (Val (PStr ''P1_show1'')), None, None),
              (''add'', Some (Val (PStr ''P1_show1'')), Some (Payload ''Sout:show1''),
               Some (Val PNone))]
       \<and> fst again = Inr (PStr ''out:show1'')
       \<and> calls (snd again) = [([PStr ''show1''], Map.empty)]
       \<and> fst other = Inr (PStr ''out:show2'')
       \<and> calls (snd other) = [([PStr ''show1''], Map.empty), ([PStr ''show2''], Map.empty)])
   \<and> (let g = example_process True False ''P1'';
          first = cache_output g (CACHE_COMMON g) (PStr ''profiles'') ''videoid'' None 0 PNone
                    example_func [] Map.empty \<lparr>cache = [], calls = []\<rparr>;
          again = cache_output g (CACHE_COMMON g) (PStr ''profiles'') ''videoid'' None 0 PNone
                    example_func [] Map.empty (snd first)
      in fst first = Inr (PStr ''out:None'')
         \<and> calls (snd first) = [([], Map.empty)]
         \<and> map (\<lambda>(c, p). (c, p ''identifier'', p ''data'', p ''ttl'')) (cache (snd first))
             = [(''get'', Some (Val (PStr ''P1_profiles'')), None, None),
                (''add'', Some (Val (PStr ''P1_profiles'')), Some (Payload ''Sout:None''),
                 Some (Val PNone))]
         \<and> fst again = Inr (PStr ''out:None'')
         \<and> calls (snd again) = [([], Map.empty)])"
proof -
  have answers: "\<forall>i d st ra sx.
      make_call (example_process True False ''P1'') ''add''
        [''bucket'' \<mapsto> Bucket (CACHE_COMMON (example_process True False ''P1'')),
         ''identifier'' \<mapsto> Val (PStr i), ''data'' \<mapsto> Val PNone, ''ttl'' \<mapsto> Val PNone,
         ''expires'' \<mapsto> Val PNone]
        (Payload d) st = (Inr ra, sx) \<longrightarrow>
      fst (make_call (example_process True False ''P1'') ''get''
             [''bucket'' \<mapsto> Bucket (CACHE_COMMON (example_process True False ''P1'')),
              ''identifier'' \<mapsto> Val (PStr i)]
             (Val PNone) sx) = Inr (Payload d)"
    using journal_read_your_write by blast
  have keyed: "\<forall>i j d st. i \<noteq> j \<longrightarrow>
      fst (make_call (example_process True False ''P1'') ''get''
             [''bucket'' \<mapsto> Bucket (CACHE_COMMON (example_process True False ''P1'')),
              ''identifier'' \<mapsto> Val (PStr j)] (Val PNone)
             (snd (make_call (example_process True False ''P1'') ''add''
                     [''bucket'' \<mapsto> Bucket (CACHE_COMMON (example_process True False ''P1'')),
                      ''identifier'' \<mapsto> Val (PStr i), ''data'' \<mapsto> Val PNone,
                      ''ttl'' \<mapsto> Val PNone, ''expires'' \<mapsto> Val PNone]
                     (Payload d) st)))
      = fst (make_call (example_process True False ''P1'') ''get''
               [''bucket'' \<mapsto> Bucket (CACHE_COMMON (example_process True False ''P1'')),
                ''identifier'' \<mapsto> Val (PStr j)]
               (Val PNone) st)"
    using journal_keyed by blast
  note derived = memoize_miss_then_hit [where g = "example_process True False ''P1''"
      and b = "CACHE_COMMON (example_process True False ''P1'')" and t = PNone
      and ttl = PNone and fx = PNone and kw = "''videoid''" and app = None and idx = 0
      and args = "[PStr ''show1'']" and kwargs = Map.empty and av = "PStr ''show1''"
      and ident = "''P1_show1''" and w = "\<lparr>cache = [], calls = []\<rparr>" and func = example_func
      and sg = "[(''get'', [''bucket'' \<mapsto> Bucket (CACHE_COMMON (example_process True False ''P1'')),
                            ''identifier'' \<mapsto> Val (PStr ''P1_show1'')])]"
      and sf = "[(''get'', [''bucket'' \<mapsto> Bucket (CACHE_COMMON (example_process True False ''P1'')),
                            ''identifier'' \<mapsto> Val (PStr ''P1_show1'')])]"
      and out = "PStr ''out:show1''" and p = "''Sout:show1''" and r = PNone
      and sa = "snd (Cache_add (example_process True False ''P1'')
                  (CACHE_COMMON (example_process True False ''P1'')) (PStr ''P1_show1'')
                  (PStr ''out:show1'') PNone PNone
                  [(''get'', [''bucket'' \<mapsto> Bucket (CACHE_COMMON (example_process True False ''P1'')),
                            ''identifier'' \<mapsto> Val (PStr ''P1_show1'')])])"
      and oargs = "[PStr ''show2'']" and okwargs = Map.empty and oav = "PStr ''show2''"
      and oident = "''P1_show2''"]
  note fixed = memoize_miss_then_hit [where g = "example_process True False ''P1''"
      and b = "CACHE_COMMON (example_process True False ''P1'')" and t = PNone
      and ttl = PNone and fx = "PStr ''profiles''" and kw = "''videoid''" and app = None
      and idx = 0 and args = "[]" and kwargs = Map.empty and av = PNone
      and ident = "''P1_profiles''" and w = "\<lparr>cache = [], calls = []\<rparr>"
      and func = example_func
      and sg = "[(''get'', [''bucket'' \<mapsto> Bucket (CACHE_COMMON (example_process True False ''P1'')),
                            ''identifier'' \<mapsto> Val (PStr ''P1_profiles'')])]"
      and sf = "[(''get'', [''bucket'' \<mapsto> Bucket (CACHE_COMMON (example_process True False ''P1'')),
                            ''identifier'' \<mapsto> Val (PStr ''P1_profiles'')])]"
      and out = "PStr ''out:None''" and p = "''Sout:None''" and r = PNone
      and sa = "snd (Cache_add (example_process True False ''P1'')
                  (CACHE_COMMON (example_process True False ''P1'')) (PStr ''P1_profiles'')
                  (PStr ''out:None'') PNone PNone
                  [(''get'', [''bucket'' \<mapsto> Bucket (CACHE_COMMON (example_process True False ''P1'')),
                            ''identifier'' \<mapsto> Val (PStr ''P1_profiles'')])])"]
  have one: "let g = example_process True False ''P1'';
        first = cache_output g (CACHE_COMMON g) PNone ''videoid'' None 0 PNone example_func
                  [PStr ''show1''] Map.empty \<lparr>cache = [], calls = []\<rparr>;
        again = cache_output g (CACHE_COMMON g) PNone ''videoid'' None 0 PNone example_func
                  [PStr ''show1''] Map.empty (snd first);
        other = cache_output g (CACHE_COMMON g) PNone ''videoid'' None 0 PNone example_func
                  [PStr ''show2''] Map.empty (snd first)
    in fst first = Inr (PStr ''out:show1'')
       \<and> calls (snd first) = [([PStr ''show1''], Map.empty)]
       \<and> map (\<lambda>(c, p). (c, p ''identifier'', p ''data'', p ''ttl'')) (cache (snd first))
           = [(''get'', Some (Val (PStr ''P1_show1'')), None, None),
              (''add'', Some (Val (PStr ''P1_show1'')), Some (Payload ''Sout:show1''),
               Some (Val PNone))]
       \<and> fst again = Inr (PStr ''out:show1'')
       \<and> calls (snd again) = [([PStr ''show1''], Map.empty)]
       \<and> fst other = Inr (PStr ''out:show2'')
       \<and> calls (snd other) = [([PStr ''show1''], Map.empty), ([PStr ''show2''], Map.empty)]"
    using derived answers keyed
    by (simp add: facade_defs example_defs get_identifier_def generate_identifier_def
          kwargs_get_def py_index_def py_or_def on_cache_miss_def invoke_def Let_def)
  have two: "let g = example_process True False ''P1'';
          first = cache_output g (CACHE_COMMON g) (PStr ''profiles'') ''videoid'' None 0 PNone
                    example_func [] Map.empty \<lparr>cache = [], calls = []\<rparr>;
          again = cache_output g (CACHE_COMMON g) (PStr ''profiles'') ''videoid'' None 0 PNone
                    example_func [] Map.empty (snd first)
      in fst first = Inr (PStr ''out:None'')
         \<and> calls (snd first) = [([], Map.empty)]
         \<and> map (\<lambda>(c, p). (c, p ''identifier'', p ''data'', p ''ttl'')) (cache (snd first))
             = [(''get'', Some (Val (PStr ''P1_profiles'')), None, None),
                (''add'', Some (Val (PStr ''P1_profiles'')), Some (Payload ''Sout:None''),
                 Some (Val PNone))]
         \<and> fst again = Inr (PStr ''out:None'')
         \<and> calls (snd again) = [([], Map.empty)]"
    using fixed answers
    by (simp add: facade_defs example_defs get_identifier_def generate_identifier_def
          kwargs_get_def py_index_def py_or_def on_cache_miss_def invoke_def Let_def)
  from one two show ?thesis
    by (rule conjI)
qed

section \<open>Errors\<close>

text \<open>
  C7.  Neither the facade nor the wrapper keeps an exception back, CacheMiss in the
  wrapper's lookup apart.  \<open>Cache.get\<close> hands on whatever the call raises, CacheMiss
  included, and whatever deserializing the answer raises; \<open>add\<close> hands on what
  serializing raises and what the call raises; \<open>delete\<close> and \<open>clear\<close> hand on what the
  call raises.  In the wrapper, what \<open>_get_identifier\<close> raises reaches the caller with
  nothing called and nothing changed; an exception of the lookup other than CacheMiss
  reaches the caller as it is, the wrapped function is not called (the log of calls is
  unchanged) and nothing is added; after a miss, what the wrapped function raises, what
  serializing its output raises and what the \<open>add\<close> raises reach the caller too.
  Conversely a result is returned only when every step has succeeded: the wrapper
  returns a value only on a hit with that value, or on a miss followed by the function
  returning it and the \<open>add\<close> going through; each facade operation returns only when
  its call has returned (and, for \<open>get\<close> and \<open>add\<close>, the codec has).
\<close>

theorem only_cache_miss_is_caught:
  "(make_call g ''get'' [''bucket'' \<mapsto> Bucket b, ''identifier'' \<mapsto> Val (PStr (py_str i))]
        (Val PNone) s = (Inl e, sg)
      \<longrightarrow> Cache_get g b i s = (Inl e, sg))
   \<and> (make_call g ''get'' [''bucket'' \<mapsto> Bucket b, ''identifier'' \<mapsto> Val (PStr (py_str i))]
        (Val PNone) s = (Inr d, sg) \<and> deserialize_data g d = Inl e
      \<longrightarrow> Cache_get g b i s = (Inl e, sg))
   \<and> (get_identifier g fx kw app idx args kwargs = Inr (av, ident)
       \<and> Cache_get g b (PStr ident) (cache w) = (Inl e, sg) \<and> e \<noteq> CacheMiss
      \<longrightarrow> cache_output g b fx kw app idx ttl func args kwargs w = (Inl e, w\<lparr>cache := sg\<rparr>))
   \<and> (get_identifier g fx kw app idx args kwargs = Inr (av, ident)
       \<and> Cache_get g b (PStr ident) (cache w) = (Inl CacheMiss, sg)
       \<and> func args kwargs sg = (Inl e, sf)
      \<longrightarrow> cache_output g b fx kw app idx ttl func args kwargs w
            = (Inl e, \<lparr>cache = sf, calls = calls w @ [(args, kwargs)]\<rparr>))
   \<and> (get_identifier g fx kw app idx args kwargs = Inr (av, ident)
       \<and> Cache_get g b (PStr ident) (cache w) = (Inl CacheMiss, sg)
       \<and> func args kwargs sg = (Inr out, sf) \<and> serialize_data g out = Inl e
      \<longrightarrow> cache_output g b fx kw app idx ttl func args kwargs w
            = (Inl e, \<lparr>cache = sf, calls = calls w @ [(args, kwargs)]\<rparr>))
   \<and> (get_identifier g fx kw app idx args kwargs = Inl e
      \<longrightarrow> cache_output g b fx kw app idx ttl func args kwargs w = (Inl e, w))
   \<and> (get_identifier g fx kw app idx args kwargs = Inr (av, ident)
       \<and> Cache_get g b (PStr ident) (cache w) = (Inl CacheMiss, sg)
       \<and> func args kwargs sg = (Inr out, sf)
       \<and> Cache_add g b (PStr ident) out
             (py_or ttl (if ttl = PNone \<and> av = PStr ''mylist''
                         then PInt (min (CACHE_TTL g) CACHE_MYLIST_TTL_MAX) else PNone))
             PNone sf = (Inl e, sa)
      \<longrightarrow> cache_output g b fx kw app idx ttl func args kwargs w
            = (Inl e, \<lparr>cache = sa, calls = calls w @ [(args, kwargs)]\<rparr>))
   \<and> (serialize_data g v = Inl e \<longrightarrow> Cache_add g b i v t ex s = (Inl e, s))
   \<and> (serialize_data g v = Inr p
       \<and> make_call g ''add''
            [''bucket'' \<mapsto> Bucket b, ''identifier'' \<mapsto> Val (PStr (py_str i)),
             ''data'' \<mapsto> Val PNone, ''ttl'' \<mapsto> Val t, ''expires'' \<mapsto> Val ex]
            (Payload p) s = (Inl e, sa)
      \<longrightarrow> Cache_add g b i v t ex s = (Inl e, sa))
   \<and> (make_call g ''delete''
          [''bucket'' \<mapsto> Bucket b, ''identifier'' \<mapsto> Val (PStr (py_str i))]
          (Val PNone) s = (Inl e, sa)
      \<longrightarrow> Cache_delete g b i s = (Inl e, sa))
   \<and> (make_call g ''clear''
          [''buckets'' \<mapsto> buckets, ''clear_database'' \<mapsto> Val (PBool clear_database)]
          (Val PNone) s = (Inl e, sa)
      \<longrightarrow> Cache_clear g buckets clear_database s = (Inl e, sa))
   \<and> (cache_output g b fx kw app idx ttl func args kwargs w = (Inr v, wr) \<longrightarrow>
        (\<exists>xav xid. get_identifier g fx kw app idx args kwargs = Inr (xav, xid)
           \<and> ((\<exists>xg. Cache_get g b (PStr xid) (cache w) = (Inr v, xg) \<and> wr = w\<lparr>cache := xg\<rparr>)
              \<or> (\<exists>xg xf xr xa.
                    Cache_get g b (PStr xid) (cache w) = (Inl CacheMiss, xg)
                    \<and> func args kwargs xg = (Inr v, xf)
                    \<and> Cache_add g b (PStr xid) v
                          (py_or ttl (if ttl = PNone \<and> xav = PStr ''mylist''
                                      then PInt (min (CACHE_TTL g) CACHE_MYLIST_TTL_MAX)
                                      else PNone))
                          PNone xf = (Inr xr, xa)
                    \<and> wr = \<lparr>cache = xa, calls = calls w @ [(args, kwargs)]\<rparr>))))
   \<and> (Cache_get g b i s = (Inr v, sg) \<longrightarrow>
        (\<exists>xd. make_call g ''get''
                 [''bucket'' \<mapsto> Bucket b, ''identifier'' \<mapsto> Val (PStr (py_str i))]
                 (Val PNone) s = (Inr xd, sg)
              \<and> deserialize_data g xd = Inr v))
   \<and> (Cache_add g b i v t ex s = (Inr r, sa) \<longrightarrow>
        (\<exists>xp xr. serialize_data g v = Inr xp
           \<and> make_call g ''add''
                [''bucket'' \<mapsto> Bucket b, ''identifier'' \<mapsto> Val (PStr (py_str i)),
                 ''data'' \<mapsto> Val PNone, ''ttl'' \<mapsto> Val t, ''expires'' \<mapsto> Val ex]
                (Payload xp) s = (Inr xr, sa)))
   \<and> (Cache_delete g b i s = (Inr r, sa) \<longrightarrow>
        (\<exists>xr. make_call g ''delete''
                 [''bucket'' \<mapsto> Bucket b, ''identifier'' \<mapsto> Val (PStr (py_str i))]
                 (Val PNone) s = (Inr xr, sa)))
   \<and> (Cache_clear g buckets clear_database s = (Inr r, sa) \<longrightarrow>
        (\<exists>xr. make_call g ''clear''
                 [''buckets'' \<mapsto> buckets, ''clear_database'' \<mapsto> Val (PBool clear_database)]
                 (Val PNone) s = (Inr xr, sa)))"
proof (intro conjI impI)
  assume "make_call g ''get'' [''bucket'' \<mapsto> Bucket b, ''identifier'' \<mapsto> Val (PStr (py_str i))]
        (Val PNone) s = (Inl e, sg)"
  then show "Cache_get g b i s = (Inl e, sg)"
    by (simp add: Cache_get_def)
next
  assume "make_call g ''get'' [''bucket'' \<mapsto> Bucket b, ''identifier'' \<mapsto> Val (PStr (py_str i))]
        (Val PNone) s = (Inr d, sg) \<and> deserialize_data g d = Inl e"
  then show "Cache_get g b i s = (Inl e, sg)"
    by (simp add: Cache_get_def)
next
  assume h: "get_identifier g fx kw app idx args kwargs = Inr (av, ident)
       \<and> Cache_get g b (PStr ident) (cache w) = (Inl e, sg) \<and> e \<noteq> CacheMiss"
  then have "ident \<noteq> []"
    using get_identifier_nonempty by blast
  with h show "cache_output g b fx kw app idx ttl func args kwargs w = (Inl e, w\<lparr>cache := sg\<rparr>)"
    by (simp add: cache_output_def Let_def)
next
  assume h: "get_identifier g fx kw app idx args kwargs = Inr (av, ident)
       \<and> Cache_get g b (PStr ident) (cache w) = (Inl CacheMiss, sg)
       \<and> func args kwargs sg = (Inl e, sf)"
  then show "cache_output g b fx kw app idx ttl func args kwargs w
            = (Inl e, \<lparr>cache = sf, calls = calls w @ [(args, kwargs)]\<rparr>)"
    by (simp add: cache_output_miss [of g fx kw app idx args kwargs av ident b w sg]
          on_cache_miss_def invoke_def)
next
  assume h: "get_identifier g fx kw app idx args kwargs = Inr (av, ident)
       \<and> Cache_get g b (PStr ident) (cache w) = (Inl CacheMiss, sg)
       \<and> func args kwargs sg = (Inr out, sf) \<and> serialize_data g out = Inl e"
  then show "cache_output g b fx kw app idx ttl func args kwargs w
            = (Inl e, \<lparr>cache = sf, calls = calls w @ [(args, kwargs)]\<rparr>)"
    by (simp add: cache_output_miss [of g fx kw app idx args kwargs av ident b w sg]
          on_cache_miss_def invoke_def Cache_add_def)
next
  assume "get_identifier g fx kw app idx args kwargs = Inl e"
  then show "cache_output g b fx kw app idx ttl func args kwargs w = (Inl e, w)"
    by (simp add: cache_output_def)
next
  assume h: "get_identifier g fx kw app idx args kwargs = Inr (av, ident)
       \<and> Cache_get g b (PStr ident) (cache w) = (Inl CacheMiss, sg)
       \<and> func args kwargs sg = (Inr out, sf)
       \<and> Cache_add g b (PStr ident) out
             (py_or ttl (if ttl = PNone \<and> av = PStr ''mylist''
                         then PInt (min (CACHE_TTL g) CACHE_MYLIST_TTL_MAX) else PNone))
             PNone sf = (Inl e, sa)"
  then show "cache_output g b fx kw app idx ttl func args kwargs w
            = (Inl e, \<lparr>cache = sa, calls = calls w @ [(args, kwargs)]\<rparr>)"
    by (simp add: cache_output_miss [of g fx kw app idx args kwargs av ident b w sg]
          on_cache_miss_def invoke_def)
next
  assume "serialize_data g v = Inl e"
  then show "Cache_add g b i v t ex s = (Inl e, s)"
    by (simp add: Cache_add_def)
next
  assume "serialize_data g v = Inr p
       \<and> make_call g ''add''
            [''bucket'' \<mapsto> Bucket b, ''identifier'' \<mapsto> Val (PStr (py_str i)),
             ''data'' \<mapsto> Val PNone, ''ttl'' \<mapsto> Val t, ''expires'' \<mapsto> Val ex]
            (Payload p) s = (Inl e, sa)"
  then show "Cache_add g b i v t ex s = (Inl e, sa)"
    by (simp add: Cache_add_def)
next
  assume "make_call g ''delete''
          [''bucket'' \<mapsto> Bucket b, ''identifier'' \<mapsto> Val (PStr (py_str i))]
          (Val PNone) s = (Inl e, sa)"
  then show "Cache_delete g b i s = (Inl e, sa)"
    by (simp add: Cache_delete_def)
next
  assume "make_call g ''clear''
          [''buckets'' \<mapsto> buckets, ''clear_database'' \<mapsto> Val (PBool clear_database)]
          (Val PNone) s = (Inl e, sa)"
  then show "Cache_clear g buckets clear_database s = (Inl e, sa)"
    by (simp add: Cache_clear_def)
next
  assume ok: "cache_output g b fx kw app idx ttl func args kwargs w = (Inr v, wr)"
  then obtain xav xid where
    xid: "get_identifier g fx kw app idx args kwargs = Inr (xav, xid)"
    by (cases "get_identifier g fx kw app idx args kwargs") (auto simp: cache_output_def)
  have nonempty: "xid \<noteq> []"
    using xid by (rule get_identifier_nonempty)
  obtain looked xg where got: "Cache_get g b (PStr xid) (cache w) = (looked, xg)"
    by (cases "Cache_get g b (PStr xid) (cache w)")
  show "\<exists>xav xid. get_identifier g fx kw app idx args kwargs = Inr (xav, xid)
           \<and> ((\<exists>xg. Cache_get g b (PStr xid) (cache w) = (Inr v, xg) \<and> wr = w\<lparr>cache := xg\<rparr>)
              \<or> (\<exists>xg xf xr xa.
                    Cache_get g b (PStr xid) (cache w) = (Inl CacheMiss, xg)
                    \<and> func args kwargs xg = (Inr v, xf)
                    \<and> Cache_add g b (PStr xid) v
                          (py_or ttl (if ttl = PNone \<and> xav = PStr ''mylist''
                                      then PInt (min (CACHE_TTL g) CACHE_MYLIST_TTL_MAX)
                                      else PNone))
                          PNone xf = (Inr xr, xa)
                    \<and> wr = \<lparr>cache = xa, calls = calls w @ [(args, kwargs)]\<rparr>))"
  proof (cases looked)
    case (Inr hit)
    with ok xid got nonempty show ?thesis
      by (auto simp: cache_output_def Let_def)
  next
    case (Inl raised)
    with ok xid got nonempty have miss: "raised = CacheMiss"
      by (auto simp: cache_output_def Let_def split: if_splits)
    obtain ran xf where run: "func args kwargs xg = (ran, xf)"
      by (cases "func args kwargs xg")
    from ok xid got nonempty Inl miss run obtain xr xa where
      "ran = Inr v"
      "Cache_add g b (PStr xid) v
          (py_or ttl (if ttl = PNone \<and> xav = PStr ''mylist''
                      then PInt (min (CACHE_TTL g) CACHE_MYLIST_TTL_MAX) else PNone))
          PNone xf = (Inr xr, xa)"
      "wr = \<lparr>cache = xa, calls = calls w @ [(args, kwargs)]\<rparr>"
      by (auto simp: cache_output_def on_cache_miss_def invoke_def Let_def
            split: sum.splits prod.splits)
    with xid got Inl miss run show ?thesis
      by auto
  qed
next
  assume "Cache_get g b i s = (Inr v, sg)"
  then show "\<exists>xd. make_call g ''get''
                 [''bucket'' \<mapsto> Bucket b, ''identifier'' \<mapsto> Val (PStr (py_str i))]
                 (Val PNone) s = (Inr xd, sg)
              \<and> deserialize_data g xd = Inr v"
    by (auto simp: Cache_get_def split: prod.splits sum.splits)
next
  assume "Cache_add g b i v t ex s = (Inr r, sa)"
  then show "\<exists>xp xr. serialize_data g v = Inr xp
           \<and> make_call g ''add''
                [''bucket'' \<mapsto> Bucket b, ''identifier'' \<mapsto> Val (PStr (py_str i)),
                 ''data'' \<mapsto> Val PNone, ''ttl'' \<mapsto> Val t, ''expires'' \<mapsto> Val ex]
                (Payload xp) s = (Inr xr, sa)"
    by (auto simp: Cache_add_def split: prod.splits sum.splits)
next
  assume "Cache_delete g b i s = (Inr r, sa)"
  then show "\<exists>xr. make_call g ''delete''
                 [''bucket'' \<mapsto> Bucket b, ''identifier'' \<mapsto> Val (PStr (py_str i))]
                 (Val PNone) s = (Inr xr, sa)"
    by (auto simp: Cache_delete_def split: prod.splits sum.splits)
next
  assume "Cache_clear g buckets clear_database s = (Inr r, sa)"
  then show "\<exists>xr. make_call g ''clear''
                 [''buckets'' \<mapsto> buckets, ''clear_database'' \<mapsto> Val (PBool clear_database)]
                 (Val PNone) s = (Inr xr, sa)"
    by (auto simp: Cache_clear_def split: prod.splits sum.splits)
qed

theorem only_cache_miss_is_caught_witness:
  "cache_output (example_process True False ''P1'')
      (CACHE_COMMON (example_process True False ''P1'')) PNone ''videoid'' None 0 PNone
      example_func [PStr ''show1''] Map.empty
      \<lparr>cache = [(''add'', [''bucket'' \<mapsto> Bucket (CACHE_COMMON (example_process True False ''P1'')),
                          ''identifier'' \<mapsto> Val (PStr ''P1_show1''),
                          ''data'' \<mapsto> Payload ''?corrupt'',
                          ''ttl'' \<mapsto> Val PNone, ''expires'' \<mapsto> Val PNone])],
       calls = []\<rparr>
   = (Inl (Raised ''UnpicklingError''),
      \<lparr>cache = [(''add'', [''bucket'' \<mapsto> Bucket (CACHE_COMMON (example_process True False ''P1'')),
                          ''identifier'' \<mapsto> Val (PStr ''P1_show1''),
                          ''data'' \<mapsto> Payload ''?corrupt'',
                          ''ttl'' \<mapsto> Val PNone, ''expires'' \<mapsto> Val PNone]),
                (''get'', [''bucket'' \<mapsto> Bucket (CACHE_COMMON (example_process True False ''P1'')),
                          ''identifier'' \<mapsto> Val (PStr ''P1_show1'')])],
       calls = []\<rparr>)
   \<and> cache_output (example_process True False ''P1'')
        (CACHE_COMMON (example_process True False ''P1'')) PNone ''videoid'' None 5 PNone
        example_func [PStr ''show1''] Map.empty \<lparr>cache = [], calls = []\<rparr>
      = (Inl IndexError, \<lparr>cache = [], calls = []\<rparr>)
   \<and> cache_output (failing_process ''P1'') (CACHE_COMMON (failing_process ''P1'')) PNone
        ''videoid'' None 0 PNone example_func [PStr ''show1''] Map.empty
        \<lparr>cache = [], calls = []\<rparr>
      = (Inl (Raised ''TransportFailure''),
         \<lparr>cache = [], calls = [([PStr ''show1''], Map.empty)]\<rparr>)
   \<and> Cache_add (example_process True False ''P1'')
        (CACHE_COMMON (example_process True False ''P1'')) (PStr ''k'') (PInt 7) PNone PNone []
      = (Inl (Raised ''PicklingError''), [])
   \<and> Cache_add (failing_process ''P1'') (CACHE_COMMON (failing_process ''P1'')) (PStr ''k'')
        (PStr ''v'') PNone PNone []
      = (Inl (Raised ''TransportFailure''), [])
   \<and> Cache_delete (failing_process ''P1'') (CACHE_COMMON (failing_process ''P1''))
        (PStr ''k'') []
      = (Inl (Raised ''TransportFailure''), [])
   \<and> Cache_clear (failing_process ''P1'') (Val PNone) True []
      = (Inl (Raised ''TransportFailure''), [])"
  using
    only_cache_miss_is_caught [where g = "example_process True False ''P1''" and fx = PNone and kw = "''videoid''"
      and app = None and idx = 0 and args = "[PStr ''show1'']" and kwargs = Map.empty
      and av = "PStr ''show1''" and ident = "''P1_show1''"
      and b = "CACHE_COMMON (example_process True False ''P1'')"
      and e = "Raised ''UnpicklingError''" and ttl = PNone and func = example_func
      and w = "\<lparr>cache = [(''add'', [''bucket'' \<mapsto> Bucket (CACHE_COMMON (example_process True False ''P1'')),
                          ''identifier'' \<mapsto> Val (PStr ''P1_show1''),
                          ''data'' \<mapsto> Payload ''?corrupt'',
                          ''ttl'' \<mapsto> Val PNone, ''expires'' \<mapsto> Val PNone])],
       calls = []\<rparr>"
      and sg = "[(''add'', [''bucket'' \<mapsto> Bucket (CACHE_COMMON (example_process True False ''P1'')),
                          ''identifier'' \<mapsto> Val (PStr ''P1_show1''),
                          ''data'' \<mapsto> Payload ''?corrupt'',
                          ''ttl'' \<mapsto> Val PNone, ''expires'' \<mapsto> Val PNone]),
                (''get'', [''bucket'' \<mapsto> Bucket (CACHE_COMMON (example_process True False ''P1'')),
                          ''identifier'' \<mapsto> Val (PStr ''P1_show1'')])]",
      THEN conjunct2, THEN conjunct2, THEN conjunct1]
    only_cache_miss_is_caught [where g = "example_process True False ''P1''" and fx = PNone
      and kw = "''videoid''" and app = None and idx = 5 and args = "[PStr ''show1'']"
      and kwargs = Map.empty and e = IndexError and ttl = PNone and func = example_func
      and b = "CACHE_COMMON (example_process True False ''P1'')"
      and w = "\<lparr>cache = [], calls = []\<rparr>", THEN conjunct2, THEN conjunct2, THEN conjunct2, THEN conjunct2, THEN conjunct2, THEN conjunct1]
    only_cache_miss_is_caught [where g = "failing_process ''P1''" and fx = PNone
      and kw = "''videoid''" and app = None and idx = 0 and args = "[PStr ''show1'']"
      and kwargs = Map.empty and av = "PStr ''show1''" and ident = "''P1_show1''"
      and e = "Raised ''TransportFailure''" and ttl = PNone and func = example_func
      and b = "CACHE_COMMON (failing_process ''P1'')"
      and w = "\<lparr>cache = [], calls = []\<rparr>" and sg = "[]" and sf = "[]" and sa = "[]"
      and out = "PStr ''out:show1''", THEN conjunct2, THEN conjunct2, THEN conjunct2, THEN conjunct2, THEN conjunct2, THEN conjunct2, THEN conjunct1]
    only_cache_miss_is_caught [where g = "example_process True False ''P1''"
      and b = "CACHE_COMMON (example_process True False ''P1'')" and i = "PStr ''k''"
      and v = "PInt 7" and e = "Raised ''PicklingError''" and t = PNone and ex = PNone
      and s = "[]", THEN conjunct2, THEN conjunct2, THEN conjunct2, THEN conjunct2, THEN conjunct2, THEN conjunct2, THEN conjunct2, THEN conjunct1]
    only_cache_miss_is_caught [where g = "failing_process ''P1''"
      and b = "CACHE_COMMON (failing_process ''P1'')" and i = "PStr ''k''"
      and v = "PStr ''v''" and p = "''Sv''" and e = "Raised ''TransportFailure''"
      and t = PNone and ex = PNone and s = "[]" and sa = "[]", THEN conjunct2, THEN conjunct2, THEN conjunct2, THEN conjunct2, THEN conjunct2, THEN conjunct2, THEN conjunct2, THEN conjunct2, THEN conjunct1]
    only_cache_miss_is_caught [where g = "failing_process ''P1''"
      and b = "CACHE_COMMON (failing_process ''P1'')" and i = "PStr ''k''"
      and e = "Raised ''TransportFailure''" and s = "[]" and sa = "[]", THEN conjunct2, THEN conjunct2, THEN conjunct2, THEN conjunct2, THEN conjunct2, THEN conjunct2, THEN conjunct2, THEN conjunct2, THEN conjunct2, THEN conjunct1]
    only_cache_miss_is_caught [where g = "failing_process ''P1''"
      and buckets = "Val PNone" and clear_database = True
      and e = "Raised ''TransportFailure''" and s = "[]" and sa = "[]", THEN conjunct2, THEN conjunct2, THEN conjunct2, THEN conjunct2, THEN conjunct2, THEN conjunct2, THEN conjunct2, THEN conjunct2, THEN conjunct2, THEN conjunct2, THEN conjunct1]
  by (simp add: facade_defs example_defs failing_process_def get_identifier_def
        generate_identifier_def kwargs_get_def py_index_def py_or_def)

section \<open>Identifiers as text\<close>

text \<open>
  C9.  \<open>get\<close>, \<open>add\<close> and \<open>delete\<close> send \<open>str(identifier)\<close> as the \<open>identifier\<close>
  parameter of the call, whatever value the identifier is.  So each behaves on any value
  as on the text of that value, two values with the same text are the same key, and an
  \<open>add\<close> under one followed by a \<open>get\<close> or a \<open>delete\<close> under the other is the same
  as under the first; with a cache management in which a \<open>get\<close> right after an \<open>add\<close>
  answers with the payload added, and a value pickle carries, what is added under one is
  found under the other.
\<close>

theorem identifier_coerced_to_str:
  "Cache_get g b x s =
     (case make_call g ''get''
             [''bucket'' \<mapsto> Bucket b, ''identifier'' \<mapsto> Val (PStr (py_str x))]
             (Val PNone) s of
        (Inl e, sg) \<Rightarrow> (Inl e, sg)
      | (Inr d, sg) \<Rightarrow> (deserialize_data g d, sg))
   \<and> Cache_add g b x v ttl ex s =
     (case serialize_data g v of
        Inl e \<Rightarrow> (Inl e, s)
      | Inr p \<Rightarrow>
          (case make_call g ''add''
                  [''bucket'' \<mapsto> Bucket b, ''identifier'' \<mapsto> Val (PStr (py_str x)),
                   ''data'' \<mapsto> Val PNone, ''ttl'' \<mapsto> Val ttl, ''expires'' \<mapsto> Val ex]
                  (Payload p) s of
             (Inl e, sa) \<Rightarrow> (Inl e, sa)
           | (Inr r, sa) \<Rightarrow> (Inr PNone, sa)))
   \<and> Cache_delete g b x s =
     (case make_call g ''delete''
             [''bucket'' \<mapsto> Bucket b, ''identifier'' \<mapsto> Val (PStr (py_str x))]
             (Val PNone) s of
        (Inl e, sd) \<Rightarrow> (Inl e, sd)
      | (Inr r, sd) \<Rightarrow> (Inr PNone, sd))
   \<and> Cache_get g b x = Cache_get g b (PStr (py_str x))
   \<and> Cache_add g b x = Cache_add g b (PStr (py_str x))
   \<and> Cache_delete g b x = Cache_delete g b (PStr (py_str x))
   \<and> (py_str x = py_str y \<longrightarrow>
        Cache_get g b x = Cache_get g b y
        \<and> Cache_add g b x = Cache_add g b y
        \<and> Cache_delete g b x = Cache_delete g b y
        \<and> (case Cache_add g b x v ttl ex s of (r, sa) \<Rightarrow> Cache_get g b y sa)
            = (case Cache_add g b x v ttl ex s of (r, sa) \<Rightarrow> Cache_get g b x sa)
        \<and> (case Cache_add g b x v ttl ex s of (r, sa) \<Rightarrow> Cache_delete g b y sa)
            = (case Cache_add g b x v ttl ex s of (r, sa) \<Rightarrow> Cache_delete g b x sa))
   \<and> (py_str x = py_str y
        \<and> (\<forall>i d st r sa.
              make_call g ''add''
                [''bucket'' \<mapsto> Bucket b, ''identifier'' \<mapsto> Val (PStr i),
                 ''data'' \<mapsto> Val PNone, ''ttl'' \<mapsto> Val ttl, ''expires'' \<mapsto> Val ex]
                (Payload d) st = (Inr r, sa) \<longrightarrow>
              fst (make_call g ''get''
                     [''bucket'' \<mapsto> Bucket b, ''identifier'' \<mapsto> Val (PStr i)]
                     (Val PNone) sa) = Inr (Payload d))
        \<and> pickle_dumps g v = Inr p \<and> pickle_loads g p = Inr v
        \<and> Cache_add g b x v ttl ex s = (Inr ra, sb) \<longrightarrow>
        fst (Cache_get g b y sb) = Inr v)"
proof -
  have get: "Cache_get g b u = Cache_get g b u'" if "py_str u = py_str u'" for u u'
    using that by (intro ext) (simp add: Cache_get_def)
  have add: "Cache_add g b u = Cache_add g b u'" if "py_str u = py_str u'" for u u'
    using that by (intro ext) (simp add: Cache_add_def split: sum.splits)
  have del: "Cache_delete g b u = Cache_delete g b u'" if "py_str u = py_str u'" for u u'
    using that by (intro ext) (simp add: Cache_delete_def)
  have str: "py_str x = py_str (PStr (py_str x))"
    by simp
  have sent: "Cache_get g b x s =
     (case make_call g ''get''
             [''bucket'' \<mapsto> Bucket b, ''identifier'' \<mapsto> Val (PStr (py_str x))]
             (Val PNone) s of
        (Inl e, sg) \<Rightarrow> (Inl e, sg)
      | (Inr d, sg) \<Rightarrow> (deserialize_data g d, sg))"
    "Cache_add g b x v ttl ex s =
     (case serialize_data g v of
        Inl e \<Rightarrow> (Inl e, s)
      | Inr p \<Rightarrow>
          (case make_call g ''add''
                  [''bucket'' \<mapsto> Bucket b, ''identifier'' \<mapsto> Val (PStr (py_str x)),
                   ''data'' \<mapsto> Val PNone, ''ttl'' \<mapsto> Val ttl, ''expires'' \<mapsto> Val ex]
                  (Payload p) s of
             (Inl e, sa) \<Rightarrow> (Inl e, sa)
           | (Inr r, sa) \<Rightarrow> (Inr PNone, sa)))"
    "Cache_delete g b x s =
     (case make_call g ''delete''
             [''bucket'' \<mapsto> Bucket b, ''identifier'' \<mapsto> Val (PStr (py_str x))]
             (Val PNone) s of
        (Inl e, sd) \<Rightarrow> (Inl e, sd)
      | (Inr r, sd) \<Rightarrow> (Inr PNone, sd))"
    by (simp_all add: Cache_get_def Cache_add_def Cache_delete_def)
  have found: "fst (Cache_get g b y sb) = Inr v"
    if same: "py_str x = py_str y"
      and law: "\<forall>i d st r sa.
              make_call g ''add''
                [''bucket'' \<mapsto> Bucket b, ''identifier'' \<mapsto> Val (PStr i),
                 ''data'' \<mapsto> Val PNone, ''ttl'' \<mapsto> Val ttl, ''expires'' \<mapsto> Val ex]
                (Payload d) st = (Inr r, sa) \<longrightarrow>
              fst (make_call g ''get''
                     [''bucket'' \<mapsto> Bucket b, ''identifier'' \<mapsto> Val (PStr i)]
                     (Val PNone) sa) = Inr (Payload d)"
      and pickles: "pickle_dumps g v = Inr p" "pickle_loads g p = Inr v"
      and added: "Cache_add g b x v ttl ex s = (Inr ra, sb)"
  proof -
    from Cache_add_Inr [OF added] obtain payload r' where
      ser: "serialize_data g v = Inr payload" and
      call: "make_call g ''add''
            [''bucket'' \<mapsto> Bucket b, ''identifier'' \<mapsto> Val (PStr (py_str x)),
             ''data'' \<mapsto> Val PNone, ''ttl'' \<mapsto> Val ttl, ''expires'' \<mapsto> Val ex]
            (Payload payload) s = (Inr r', sb)"
      by auto
    from law call have "fst (make_call g ''get''
                     [''bucket'' \<mapsto> Bucket b, ''identifier'' \<mapsto> Val (PStr (py_str x))]
                     (Val PNone) sb) = Inr (Payload payload)"
      by blast
    then show ?thesis
      using deserialize_serialize [OF pickles ser] same
      by (simp add: fst_Cache_get bind_err_def)
  qed
  show ?thesis
  proof (intro conjI impI)
    show "Cache_get g b x = Cache_get g b (PStr (py_str x))"
      by (rule get [OF str])
    show "Cache_add g b x = Cache_add g b (PStr (py_str x))"
      by (rule add [OF str])
    show "Cache_delete g b x = Cache_delete g b (PStr (py_str x))"
      by (rule del [OF str])
  next
    assume same: "py_str x = py_str y"
    show "Cache_get g b x = Cache_get g b y"
      by (rule get [OF same])
    show "Cache_add g b x = Cache_add g b y"
      by (rule add [OF same])
    show "Cache_delete g b x = Cache_delete g b y"
      by (rule del [OF same])
    show "(case Cache_add g b x v ttl ex s of (r, sa) \<Rightarrow> Cache_get g b y sa)
            = (case Cache_add g b x v ttl ex s of (r, sa) \<Rightarrow> Cache_get g b x sa)"
      by (simp only: get [OF same])
    show "(case Cache_add g b x v ttl ex s of (r, sa) \<Rightarrow> Cache_delete g b y sa)
            = (case Cache_add g b x v ttl ex s of (r, sa) \<Rightarrow> Cache_delete g b x sa)"
      by (simp only: del [OF same])
  next
    assume "py_str x = py_str y
        \<and> (\<forall>i d st r sa.
              make_call g ''add''
                [''bucket'' \<mapsto> Bucket b, ''identifier'' \<mapsto> Val (PStr i),
                 ''data'' \<mapsto> Val PNone, ''ttl'' \<mapsto> Val ttl, ''expires'' \<mapsto> Val ex]
                (Payload d) st = (Inr r, sa) \<longrightarrow>
              fst (make_call g ''get''
                     [''bucket'' \<mapsto> Bucket b, ''identifier'' \<mapsto> Val (PStr i)]
                     (Val PNone) sa) = Inr (Payload d))
        \<and> pickle_dumps g v = Inr p \<and> pickle_loads g p = Inr v
        \<and> Cache_add g b x v ttl ex s = (Inr ra, sb)"
    then show "fst (Cache_get g b y sb) = Inr v"
      using found by blast
  qed (rule sent)+
qed

theorem identifier_coerced_to_str_witness:
  "(let g = example_process False False ''P1''; b = CACHE_COMMON g;
        added = Cache_add g b (PInt 42) (PStr ''v'') PNone PNone [];
        found = Cache_get g b (PObj ''42'') (snd added);
        deleted = Cache_delete g b (PStr ''42'') (snd found);
        gone = Cache_get g b (PInt 42) (snd deleted)
    in py_str (PInt 42) = py_str (PObj ''42'')
       \<and> fst found = Inr (PStr ''v'')
       \<and> fst gone = Inl CacheMiss
       \<and> map (\<lambda>(c, p). (c, p ''identifier'')) (snd gone)
           = [(''add'', Some (Val (PStr ''42''))), (''get'', Some (Val (PStr ''42''))),
              (''delete'', Some (Val (PStr ''42''))), (''get'', Some (Val (PStr ''42'')))])"
  using identifier_coerced_to_str [where x = "PInt 42" and y = "PObj ''42''"
      and g = "example_process False False ''P1''"
      and b = "CACHE_COMMON (example_process False False ''P1'')"
      and v = "PStr ''v''" and ttl = PNone and ex = PNone and s = "[]"]
  by (simp add: facade_defs example_defs str_nat.simps Let_def)

end
